theory Spec2Isabelle
  imports Main
begin

section \<open>Python strings\<close>

text \<open>
  The program is the Python script \<^verbatim>\<open>verify_label_standardization.py\<close>. A Python
  \<^verbatim>\<open>str\<close> is modelled as a \<^typ>\<open>string\<close>; a \<^typ>\<open>char\<close> stands for the code
  point of the same number, so the model covers the texts whose code points are below 256.
  The leading underscore of the source's helper names is dropped, since an Isabelle
  name cannot start with one.
\<close>

text \<open>\<^verbatim>\<open>str.isspace\<close> on one character, as used by \<^verbatim>\<open>str.strip()\<close>: the code points
  9 to 13, 28 to 32, 133 and 160.\<close>

definition py_isspace :: "char \<Rightarrow> bool" where
  "py_isspace c = (c \<in> set [CHR 0x09, CHR 0x0A, CHR 0x0B, CHR 0x0C, CHR 0x0D,
      CHR 0x1C, CHR 0x1D, CHR 0x1E, CHR 0x1F, CHR 0x20, CHR 0x85, CHR 0xA0])"

text \<open>\<^verbatim>\<open>s.strip()\<close>\<close>

definition py_strip :: "string \<Rightarrow> string" where
  "py_strip s = rev (dropWhile py_isspace (rev (dropWhile py_isspace s)))"

text \<open>\<^verbatim>\<open>s.split(sep)\<close> for a separator of one character (the source splits on
  a newline and on a vertical bar); the empty string gives one empty piece.\<close>

fun py_split :: "char \<Rightarrow> string \<Rightarrow> string list" where
  "py_split sep [] = [[]]"
| "py_split sep (c # cs) =
     (if c = sep then [] # py_split sep cs
      else (case py_split sep cs of
              [] \<Rightarrow> [[c]]
            | w # ws \<Rightarrow> (c # w) # ws))"

text \<open>\<^verbatim>\<open>s.startswith(p)\<close>\<close>

definition py_startswith :: "string \<Rightarrow> string \<Rightarrow> bool" where
  "py_startswith s p = (take (length p) s = p)"

text \<open>\<^verbatim>\<open>t in s\<close> on two strings: \<open>t\<close> occurs in \<open>s\<close> as a contiguous piece.\<close>

fun py_in :: "string \<Rightarrow> string \<Rightarrow> bool" where
  "py_in t [] = (t = [])"
| "py_in t (c # cs) = (py_startswith (c # cs) t \<or> py_in t cs)"

text \<open>\<^verbatim>\<open>s.lower()\<close>: the letters A to Z and the upper-case letters of the Latin-1 block
  (192 to 222 without the multiplication sign 215) move up by 32.\<close>

definition lower_char :: "char \<Rightarrow> char" where
  "lower_char c =
     (let n = (of_char c :: nat) in
      if (65 \<le> n \<and> n \<le> 90) \<or> (192 \<le> n \<and> n \<le> 222 \<and> n \<noteq> 215)
      then char_of (n + 32) else c)"

definition py_lower :: "string \<Rightarrow> string" where
  "py_lower s = map lower_char s"

text \<open>\<^verbatim>\<open>s.replace(old, new)\<close>: every occurrence, found from the left and not
  overlapping; an empty \<open>old\<close> puts \<open>new\<close> before every character and at the end.\<close>

function py_replace :: "string \<Rightarrow> string \<Rightarrow> string \<Rightarrow> string" where
  "py_replace old new s =
     (if old = [] then new @ concat (map (\<lambda>c. c # new) s)
      else if s = [] then []
      else if py_startswith s old then new @ py_replace old new (drop (length old) s)
      else hd s # py_replace old new (tl s))"
  by pat_completeness auto
termination
  by (relation "measure (\<lambda>(old, new, s). length s)") auto

declare py_replace.simps [simp del]

text \<open>\<^verbatim>\<open>sep.join(xs)\<close>\<close>

fun py_join :: "string \<Rightarrow> string list \<Rightarrow> string" where
  "py_join sep [] = []"
| "py_join sep [x] = x"
| "py_join sep (x # y # ys) = x @ sep @ py_join sep (y # ys)"

section \<open>The table parser\<close>

text \<open>\<^verbatim>\<open>parts = [p.strip() for p in line.split("|")]\<close>\<close>

definition row_cells :: "string \<Rightarrow> string list" where
  "row_cells line = map py_strip (py_split (CHR ''|'') line)"

text \<open>
  The \<^verbatim>\<open>for line in lines\<close> loop of \<^verbatim>\<open>_parse_label_table\<close>, with its two variables
  \<^verbatim>\<open>in_table\<close> and \<^verbatim>\<open>documented_labels\<close> as arguments. The first two branches are
  the two \<^verbatim>\<open>continue\<close> statements; the last test is the \<^verbatim>\<open>break\<close>.
\<close>

fun parse_loop :: "string \<Rightarrow> bool \<Rightarrow> string list \<Rightarrow> string list \<Rightarrow> string list" where
  "parse_loop table_header in_table documented_labels [] = documented_labels"
| "parse_loop table_header in_table documented_labels (line # lines) =
     (if py_in table_header line then parse_loop table_header True documented_labels lines
      else if in_table \<and> py_startswith line ''|---''
        then parse_loop table_header in_table documented_labels lines
      else
        (let documented_labels' =
           (if in_table \<and> py_startswith line ''|'' then
              (let parts = row_cells line in
               if 4 \<le> length parts then
                 (let label_name = parts ! 1 in
                  if label_name \<noteq> [] \<and> label_name \<noteq> ''Label Name''
                  then documented_labels @ [label_name]
                  else documented_labels)
               else documented_labels)
            else documented_labels)
         in if in_table \<and> line \<noteq> [] \<and> \<not> py_startswith line ''|''
            then documented_labels'
            else parse_loop table_header in_table documented_labels' lines))"

definition parse_label_table :: "string \<Rightarrow> string \<Rightarrow> string list" where
  "parse_label_table content table_header =
     parse_loop table_header False [] (py_split (CHR 0x0A) content)"

text \<open>
  Two notions used to state what the parser returns. A line ends the table when it is
  not a header line, is not empty and does not start with a vertical bar. The table
  rows of a document are the lines after the first header line, up to the first line
  that ends the table: the lines the loop meets while \<^verbatim>\<open>in_table\<close> is set.
\<close>

definition ends_table :: "string \<Rightarrow> string \<Rightarrow> bool" where
  "ends_table table_header line =
     (\<not> py_in table_header line \<and> line \<noteq> [] \<and> \<not> py_startswith line ''|'')"

definition table_rows :: "string \<Rightarrow> string list \<Rightarrow> string list" where
  "table_rows table_header lines =
     takeWhile (\<lambda>l. \<not> ends_table table_header l)
       (drop 1 (dropWhile (\<lambda>l. \<not> py_in table_header l) lines))"

text \<open>What one table row adds to the result: nothing, or the cell at index 1.\<close>

definition row_labels :: "string \<Rightarrow> string \<Rightarrow> string list" where
  "row_labels table_header line =
     (if py_startswith line ''|'' \<and> \<not> py_startswith line ''|---''
         \<and> \<not> py_in table_header line
         \<and> 4 \<le> length (row_cells line)
         \<and> row_cells line ! 1 \<noteq> [] \<and> row_cells line ! 1 \<noteq> ''Label Name''
      then [row_cells line ! 1] else [])"


section \<open>JSON values and the Python operations on them\<close>

text \<open>
  \<^verbatim>\<open>response.json()\<close> gives a Python value made of \<^verbatim>\<open>None\<close>, booleans, numbers,
  strings, lists and dictionaries. Numbers are integers here (the numeric fields the
  script reads are issue and pull request numbers). A dictionary is an association
  list; the lists that arise have one binding per key, and a key is looked up from the
  left.
\<close>

datatype json =
    JNull
  | JBool bool
  | JNum int
  | JStr string
  | JArr "json list"
  | JObj "(string \<times> json) list"

text \<open>
  The exceptions that can occur. \<open>RequestException\<close> stands for the errors of
  \<^verbatim>\<open>requests.get\<close> and \<open>JSONDecodeError\<close> for the one of \<^verbatim>\<open>response.json()\<close>. All are
  subclasses of \<^verbatim>\<open>Exception\<close> except \<^verbatim>\<open>KeyboardInterrupt\<close>, which an
  \<^verbatim>\<open>except Exception\<close> clause does not catch.
\<close>

datatype exn =
    KeyboardInterrupt
  | RequestException
  | JSONDecodeError
  | TypeError
  | AttributeError
  | KeyError

fun is_Exception :: "exn \<Rightarrow> bool" where
  "is_Exception KeyboardInterrupt = False"
| "is_Exception _ = True"

text \<open>Sequencing of computations that may raise.\<close>

fun ebind :: "exn + 'a \<Rightarrow> ('a \<Rightarrow> exn + 'b) \<Rightarrow> exn + 'b" where
  "ebind (Inl e) f = Inl e"
| "ebind (Inr x) f = f x"

text \<open>A list comprehension \<^verbatim>\<open>[x for x in xs if p(x)]\<close> whose test may raise, and
  \<^verbatim>\<open>[f(x) for x in xs]\<close> whose body may raise: the first exception ends it.\<close>

fun efilter :: "('a \<Rightarrow> exn + bool) \<Rightarrow> 'a list \<Rightarrow> exn + 'a list" where
  "efilter p [] = Inr []"
| "efilter p (x # xs) =
     ebind (p x) (\<lambda>b. ebind (efilter p xs) (\<lambda>ys. Inr (if b then x # ys else ys)))"

fun emap :: "('a \<Rightarrow> exn + 'b) \<Rightarrow> 'a list \<Rightarrow> exn + 'b list" where
  "emap f [] = Inr []"
| "emap f (x # xs) = ebind (f x) (\<lambda>y. ebind (emap f xs) (\<lambda>ys. Inr (y # ys)))"

text \<open>Truth value of a Python value, as \<^verbatim>\<open>if x\<close> and \<^verbatim>\<open>not x\<close> read it.\<close>

fun py_truthy :: "json \<Rightarrow> bool" where
  "py_truthy JNull = False"
| "py_truthy (JBool b) = b"
| "py_truthy (JNum n) = (n \<noteq> 0)"
| "py_truthy (JStr s) = (s \<noteq> [])"
| "py_truthy (JArr xs) = (xs \<noteq> [])"
| "py_truthy (JObj kvs) = (kvs \<noteq> [])"

text \<open>\<^verbatim>\<open>x.get(key, default)\<close>: only a dictionary has the method.\<close>

fun py_get :: "json \<Rightarrow> string \<Rightarrow> json \<Rightarrow> exn + json" where
  "py_get (JObj kvs) key dflt =
     Inr (case map_of kvs key of Some v \<Rightarrow> v | None \<Rightarrow> dflt)"
| "py_get _ key dflt = Inl AttributeError"

text \<open>\<^verbatim>\<open>x[key]\<close> for a string key: a missing key of a dictionary is a
  \<^verbatim>\<open>KeyError\<close>, any other value refuses a string index with a \<^verbatim>\<open>TypeError\<close>.\<close>

fun py_item :: "json \<Rightarrow> string \<Rightarrow> exn + json" where
  "py_item (JObj kvs) key = (case map_of kvs key of Some v \<Rightarrow> Inr v | None \<Rightarrow> Inl KeyError)"
| "py_item _ key = Inl TypeError"

text \<open>\<^verbatim>\<open>x.lower()\<close>: only a string has the method.\<close>

fun py_lower_of :: "json \<Rightarrow> exn + string" where
  "py_lower_of (JStr s) = Inr (py_lower s)"
| "py_lower_of _ = Inl AttributeError"

text \<open>\<^verbatim>\<open>s in x\<close> for a string \<open>s\<close>: a piece of a string, an element of a list, a
  key of a dictionary; the other values are not containers.\<close>

fun py_contains :: "string \<Rightarrow> json \<Rightarrow> exn + bool" where
  "py_contains s (JStr t) = Inr (py_in s t)"
| "py_contains s (JArr xs) = Inr (JStr s \<in> set xs)"
| "py_contains s (JObj kvs) = Inr (s \<in> set (map fst kvs))"
| "py_contains s _ = Inl TypeError"

text \<open>\<^verbatim>\<open>for item in x\<close>: the elements of a list, the keys of a dictionary, the
  characters of a string.\<close>

fun py_iter :: "json \<Rightarrow> exn + json list" where
  "py_iter (JArr xs) = Inr xs"
| "py_iter (JObj kvs) = Inr (map (\<lambda>kv. JStr (fst kv)) kvs)"
| "py_iter (JStr s) = Inr (map (\<lambda>c. JStr [c]) s)"
| "py_iter _ = Inl TypeError"

text \<open>\<^verbatim>\<open>len(x)\<close>\<close>

fun py_len :: "json \<Rightarrow> exn + nat" where
  "py_len (JArr xs) = Inr (length xs)"
| "py_len (JObj kvs) = Inr (length kvs)"
| "py_len (JStr s) = Inr (length s)"
| "py_len _ = Inl TypeError"

text \<open>\<^verbatim>\<open>str(n)\<close> for an integer: decimal digits, with a minus sign when negative.\<close>

fun nat_digits :: "nat \<Rightarrow> string" where
  "nat_digits n =
     (if n < 10 then [''0123456789'' ! n]
      else nat_digits (n div 10) @ [''0123456789'' ! (n mod 10)])"

declare nat_digits.simps [simp del]

definition int_str :: "int \<Rightarrow> string" where
  "int_str i = (if i < 0 then ''-'' @ nat_digits (nat (- i)) else nat_digits (nat i))"

text \<open>
  \<^verbatim>\<open>repr\<close> of a string: in single quotes, or in double quotes when the string has a
  single quote and no double quote; the quote in use and the backslash are escaped,
  tab, newline and carriage return are written with their letters, and the other
  unprintable code points (below 32, 127 to 160, and 173) as \<^verbatim>\<open>\xhh\<close>.
\<close>

definition hex_escape :: "char \<Rightarrow> string" where
  "hex_escape c =
     [CHR 0x5C, CHR ''x'',
      ''0123456789abcdef'' ! ((of_char c :: nat) div 16),
      ''0123456789abcdef'' ! ((of_char c :: nat) mod 16)]"

definition repr_char :: "char \<Rightarrow> char \<Rightarrow> string" where
  "repr_char quote c =
     (if c = quote \<or> c = CHR 0x5C then [CHR 0x5C, c]
      else if c = CHR 0x09 then [CHR 0x5C, CHR ''t'']
      else if c = CHR 0x0A then [CHR 0x5C, CHR ''n'']
      else if c = CHR 0x0D then [CHR 0x5C, CHR ''r'']
      else if (of_char c :: nat) < 32 \<or> (of_char c :: nat) = 127 then hex_escape c
      else if (of_char c :: nat) < 127 then [c]
      else if (of_char c :: nat) \<le> 160 \<or> (of_char c :: nat) = 173 then hex_escape c
      else [c])"

definition repr_str :: "string \<Rightarrow> string" where
  "repr_str s =
     (let quote = (if CHR 0x27 \<in> set s \<and> CHR 0x22 \<notin> set s then CHR 0x22 else CHR 0x27)
      in [quote] @ concat (map (repr_char quote) s) @ [quote])"

text \<open>\<^verbatim>\<open>repr(x)\<close> and \<^verbatim>\<open>str(x)\<close>; they differ on strings only.\<close>

fun py_repr :: "json \<Rightarrow> string" where
  "py_repr JNull = ''None''"
| "py_repr (JBool b) = (if b then ''True'' else ''False'')"
| "py_repr (JNum i) = int_str i"
| "py_repr (JStr s) = repr_str s"
| "py_repr (JArr xs) = ''['' @ py_join '', '' (map py_repr xs) @ '']''"
| "py_repr (JObj kvs) =
     ''{'' @ py_join '', '' (map (\<lambda>kv. repr_str (fst kv) @ '': '' @ py_repr (snd kv)) kvs) @ ''}''"

fun py_str :: "json \<Rightarrow> string" where
  "py_str (JStr s) = s"
| "py_str x = py_repr x"

section \<open>The outside world and the output\<close>

text \<open>
  What \<^verbatim>\<open>requests.get(url, headers=headers)\<close> can do: return a response with a status
  code and a body (\<open>None\<close> when the body is not JSON, so that \<^verbatim>\<open>response.json()\<close>
  raises), or raise.
\<close>

datatype http_result =
    Response nat "json option"
  | Raises exn

text \<open>
  One run of the script sees the two environment variables as they are after
  \<^verbatim>\<open>load_dotenv\<close> (\<open>None\<close> when unset) and the remote API; every URL is requested at
  most once in a run, so the API is a function of the request. The library call
  \<^verbatim>\<open>base64.b64decode(x).decode("utf-8")\<close> is a parameter: \<open>None\<close> when it raises.
\<close>

record world =
  GITHUB_TOKEN :: "string option"
  GITHUB_ORG :: "string option"
  requests_get :: "string \<Rightarrow> (string \<times> string) list \<Rightarrow> http_result"
  b64decode_utf8 :: "json \<Rightarrow> string option"

text \<open>
  Every \<^verbatim>\<open>print\<close> call of the source is an event: the stream it writes to and the
  number of its line in the source (the text of the message is left out). A
  computation with output gives its events in order and then a value or an exception.
\<close>

datatype stream = Stdout | Stderr

type_synonym event = "stream \<times> nat"

type_synonym 'a io = "event list \<times> (exn + 'a)"

definition io_return :: "'a \<Rightarrow> 'a io" where
  "io_return x = ([], Inr x)"

definition io_lift :: "exn + 'a \<Rightarrow> 'a io" where
  "io_lift r = ([], r)"

fun io_bind :: "'a io \<Rightarrow> ('a \<Rightarrow> 'b io) \<Rightarrow> 'b io" where
  "io_bind (out, Inl e) f = (out, Inl e)"
| "io_bind (out, Inr x) f = (case f x of (out', r) \<Rightarrow> (out @ out', r))"

text \<open>A \<^verbatim>\<open>print\<close> call followed by the rest of the computation.\<close>

fun say :: "stream \<Rightarrow> nat \<Rightarrow> 'a io \<Rightarrow> 'a io" where
  "say s line (out, r) = ((s, line) # out, r)"

section \<open>The configuration\<close>

text \<open>The entries of the dictionary \<^verbatim>\<open>CONFIG\<close> (lines 147 to 189).\<close>

definition target_repo :: string where
  "target_repo = ''team-project-management''"

definition feature_branch_name :: string where
  "feature_branch_name = ''feat/label-color-standard''"

definition feature_branch_doc_file :: string where
  "feature_branch_doc_file = ''docs/label-color-standardization.md''"

definition doc_parsing_table_header :: string where
  "doc_parsing_table_header = ''| Label Name | Color Hex | Category |''"

definition doc_parsing_min_label_count :: nat where
  "doc_parsing_min_label_count = 22"

definition issue_title_keywords :: "string list" where
  "issue_title_keywords = [''Label'', ''standard'', ''documentation'']"

definition issue_body_keywords :: "string list" where
  "issue_body_keywords = [''label'', ''color'', ''standard'']"

definition issue_required_sections :: "string list" where
  "issue_required_sections = [''## Background'', ''## Required Label List'']"

definition issue_initial_labels :: "string list" where
  "issue_initial_labels = [''documentation'', ''enhancement'']"

definition pr_title_keywords :: "string list" where
  "pr_title_keywords = [''Label'', ''standard'', ''documentation'']"

definition pr_body_keywords :: "string list" where
  "pr_body_keywords = [''label'', ''documentation'', ''standard'']"

definition pr_required_sections :: "string list" where
  "pr_required_sections = [''## Summary'', ''## Changes'']"

definition pr_min_labels_count :: nat where
  "pr_min_labels_count = 3"

definition pr_issue_reference_pattern :: string where
  "pr_issue_reference_pattern = ''Fixes #{issue_number}''"

definition expected_labels :: "string list" where
  "expected_labels =
     [''bug'', ''enhancement'', ''documentation'', ''feature'', ''bug-critical'',
      ''bug-major'', ''bug-minor'', ''task'', ''question'', ''help-wanted'',
      ''good-first-issue'', ''priority-high'', ''priority-medium'', ''priority-low'',
      ''status-in-progress'', ''status-review'', ''status-done'', ''status-blocked'',
      ''component-frontend'', ''component-backend'', ''component-db'', ''wontfix'']"

definition comment_keywords :: "string list" where
  "comment_keywords = [''label'', ''documentation'', ''completed'']"

definition comment_pr_reference_flag :: string where
  "comment_pr_reference_flag = ''PR #{pr_number}''"

definition comment_content_flags :: "string list" where
  "comment_content_flags = [''labels'', ''verified'', ''applied'']"

section \<open>The API client and the helpers built on it\<close>

text \<open>
  \<^verbatim>\<open>_get_github_api\<close> (lines 18 to 35). The pair it returns is the success flag and
  the data, with \<^verbatim>\<open>None\<close> as \<open>JNull\<close>. The \<^verbatim>\<open>except Exception\<close> clause covers the call
  of \<^verbatim>\<open>requests.get\<close> and the one of \<^verbatim>\<open>response.json()\<close>.
\<close>

definition get_github_api ::
  "world \<Rightarrow> string \<Rightarrow> (string \<times> string) list \<Rightarrow> string \<Rightarrow> string \<Rightarrow> (bool \<times> json) io" where
  "get_github_api w endpoint headers org repo =
     (let url = ''https://api.github.com/repos/'' @ org @ ''/'' @ repo @ ''/'' @ endpoint in
      case requests_get w url headers of
        Response status_code body \<Rightarrow>
          if status_code = 200 then
            (case body of
               Some data \<Rightarrow> io_return (True, data)
             | None \<Rightarrow> say Stderr 34 (io_return (False, JNull)))
          else if status_code = 404 then say Stderr 28 (io_return (False, JNull))
          else say Stderr 31 (io_return (False, JNull))
      | Raises e \<Rightarrow>
          if is_Exception e then say Stderr 34 (io_return (False, JNull))
          else io_lift (Inl e))"

text \<open>\<^verbatim>\<open>_check_branch_exists\<close> (lines 38 to 43)\<close>

definition check_branch_exists ::
  "world \<Rightarrow> string \<Rightarrow> (string \<times> string) list \<Rightarrow> string \<Rightarrow> string \<Rightarrow> bool io" where
  "check_branch_exists w branch_name headers org repo =
     io_bind (get_github_api w (''branches/'' @ branch_name) headers org repo)
       (\<lambda>(success, _). io_return success)"

text \<open>\<^verbatim>\<open>_get_file_content\<close> (lines 46 to 64); \<^verbatim>\<open>result.get\<close> is outside the
  \<^verbatim>\<open>try\<close>, the decoding inside.\<close>

definition get_file_content ::
  "world \<Rightarrow> string \<Rightarrow> string \<Rightarrow> (string \<times> string) list \<Rightarrow> string \<Rightarrow> string
     \<Rightarrow> string option io" where
  "get_file_content w branch file_path headers org repo =
     io_bind (get_github_api w (''contents/'' @ file_path @ ''?ref='' @ branch) headers org repo)
       (\<lambda>(success, result).
          if \<not> success \<or> \<not> py_truthy result then io_return None
          else io_bind (io_lift (py_get result ''content'' JNull))
            (\<lambda>content.
               if py_truthy content then
                 (case b64decode_utf8 w content of
                    Some text \<Rightarrow> io_return (Some text)
                  | None \<Rightarrow> say Stderr 62 (io_return None))
               else io_return None))"

text \<open>\<^verbatim>\<open>all(kw.lower() in title for kw in title_keywords)\<close>\<close>

definition all_keywords_in :: "string list \<Rightarrow> string \<Rightarrow> bool" where
  "all_keywords_in wanted text = list_all (\<lambda>kw. py_in (py_lower kw) text) wanted"

text \<open>
  \<^verbatim>\<open>_find_issue_by_keywords\<close> (lines 95 to 111). \<open>scan_issues\<close> is the inner loop over
  one listing: \<open>Some issue\<close> is \<^verbatim>\<open>return issue\<close>, \<open>None\<close> the end of the loop.
  \<open>find_issue_in_states\<close> is the outer loop over the states; \<open>JNull\<close> is
  \<^verbatim>\<open>return None\<close>.
\<close>

fun scan_issues :: "string list \<Rightarrow> json list \<Rightarrow> exn + json option" where
  "scan_issues title_keywords [] = Inr None"
| "scan_issues title_keywords (issue # issues) =
     ebind (py_contains ''pull_request'' issue) (\<lambda>is_pr.
       if is_pr then scan_issues title_keywords issues
       else
         ebind (py_get issue ''title'' (JStr [])) (\<lambda>t.
         ebind (py_lower_of t) (\<lambda>title.
           if all_keywords_in title_keywords title then Inr (Some issue)
           else scan_issues title_keywords issues)))"

fun find_issue_in_states ::
  "world \<Rightarrow> string list \<Rightarrow> (string \<times> string) list \<Rightarrow> string \<Rightarrow> string \<Rightarrow> string list
     \<Rightarrow> json io" where
  "find_issue_in_states w title_keywords headers org repo [] = io_return JNull"
| "find_issue_in_states w title_keywords headers org repo (state # states) =
     io_bind (get_github_api w (''issues?state='' @ state @ ''&per_page=30'') headers org repo)
       (\<lambda>r.
          let success = fst r; issues = snd r in
          if success \<and> py_truthy issues then
            io_bind (io_lift (ebind (py_iter issues) (scan_issues title_keywords)))
              (\<lambda>found. case found of
                   Some issue \<Rightarrow> io_return issue
                 | None \<Rightarrow> find_issue_in_states w title_keywords headers org repo states)
          else find_issue_in_states w title_keywords headers org repo states)"

definition find_issue_by_keywords ::
  "world \<Rightarrow> string list \<Rightarrow> (string \<times> string) list \<Rightarrow> string \<Rightarrow> string \<Rightarrow> json io" where
  "find_issue_by_keywords w title_keywords headers org repo =
     find_issue_in_states w title_keywords headers org repo [''open'', ''closed'']"

text \<open>\<^verbatim>\<open>_find_pr_by_keywords\<close> (lines 114 to 127), in the same way.\<close>

fun scan_prs :: "string list \<Rightarrow> json list \<Rightarrow> exn + json option" where
  "scan_prs title_keywords [] = Inr None"
| "scan_prs title_keywords (pr # prs) =
     ebind (py_get pr ''title'' (JStr [])) (\<lambda>t.
     ebind (py_lower_of t) (\<lambda>title.
       if all_keywords_in title_keywords title then Inr (Some pr)
       else scan_prs title_keywords prs))"

fun find_pr_in_states ::
  "world \<Rightarrow> string list \<Rightarrow> (string \<times> string) list \<Rightarrow> string \<Rightarrow> string \<Rightarrow> string list
     \<Rightarrow> json io" where
  "find_pr_in_states w title_keywords headers org repo [] = io_return JNull"
| "find_pr_in_states w title_keywords headers org repo (state # states) =
     io_bind (get_github_api w (''pulls?state='' @ state @ ''&per_page=30'') headers org repo)
       (\<lambda>r.
          let success = fst r; prs = snd r in
          if success \<and> py_truthy prs then
            io_bind (io_lift (ebind (py_iter prs) (scan_prs title_keywords)))
              (\<lambda>found. case found of
                   Some pr \<Rightarrow> io_return pr
                 | None \<Rightarrow> find_pr_in_states w title_keywords headers org repo states)
          else find_pr_in_states w title_keywords headers org repo states)"

definition find_pr_by_keywords ::
  "world \<Rightarrow> string list \<Rightarrow> (string \<times> string) list \<Rightarrow> string \<Rightarrow> string \<Rightarrow> json io" where
  "find_pr_by_keywords w title_keywords headers org repo =
     find_pr_in_states w title_keywords headers org repo [''open'', ''closed'']"

text \<open>\<^verbatim>\<open>_get_issue_comments\<close> (lines 130 to 137); the empty list is \<open>JArr []\<close>.\<close>

definition get_issue_comments ::
  "world \<Rightarrow> json \<Rightarrow> (string \<times> string) list \<Rightarrow> string \<Rightarrow> string \<Rightarrow> json io" where
  "get_issue_comments w issue_number headers org repo =
     io_bind (get_github_api w (''issues/'' @ py_str issue_number @ ''/comments'') headers org repo)
       (\<lambda>(success, comments).
          io_return (if success \<and> py_truthy comments then comments else JArr []))"

section \<open>The verification pipeline\<close>

text \<open>
  \<^verbatim>\<open>verify_label_standardization\<close> (lines 143 to 463) is one function made of sections
  headed by a comment with the number of the step. Each section is a definition here.
  It gives \<open>None\<close> where the source runs \<^verbatim>\<open>return False\<close>, and otherwise the values
  the later sections read. The texts printed are not modelled, and the expressions
  that only build a text cannot raise: the titles printed on lines 312 and 360 belong
  to items the finders matched on that very key.
\<close>

text \<open>Lines 194 to 204: the two environment variables; \<^verbatim>\<open>not x\<close> holds for
  \<^verbatim>\<open>None\<close> and for the empty string.\<close>

definition load_env :: "world \<Rightarrow> (string \<times> string) option io" where
  "load_env w =
     (let github_token = GITHUB_TOKEN w; github_org = GITHUB_ORG w in
      if github_token = None \<or> github_token = Some [] then say Stderr 200 (io_return None)
      else if github_org = None \<or> github_org = Some [] then say Stderr 203 (io_return None)
      else io_return (Some (the github_token, the github_org)))"

text \<open>Lines 206 to 230: the request headers and their self-check. The two
  dictionaries have the same two keys, so they are equal when they have the same
  bindings.\<close>

definition check_headers :: "string \<Rightarrow> (string \<times> string) list option io" where
  "check_headers github_token =
     (let headers = [(''Authorization'', ''token '' @ github_token),
                     (''Accept'', ''application/vnd.github.v3+json'')] in
      say Stdout 212 (say Stdout 213 (say Stdout 214 (say Stdout 215 (say Stdout 220
        (let expected_headers = [(''Authorization'', ''token '' @ github_token),
                                 (''Accept'', ''application/vnd.github.v3+json'')] in
         if set headers \<noteq> set expected_headers then say Stderr 227 (io_return None)
         else say Stdout 229 (say Stdout 230 (io_return (Some headers)))))))))"

text \<open>Lines 235 to 241: the feature branch.\<close>

definition check_branch :: "world \<Rightarrow> (string \<times> string) list \<Rightarrow> string \<Rightarrow> unit option io" where
  "check_branch w headers github_org =
     say Stdout 235
       (io_bind (check_branch_exists w feature_branch_name headers github_org target_repo)
          (\<lambda>found.
             if \<not> found then say Stderr 239 (io_return None)
             else say Stdout 241 (io_return (Some ()))))"

text \<open>Lines 246 to 266: the label document; \<^verbatim>\<open>not doc_content\<close> holds for
  \<^verbatim>\<open>None\<close> and for the empty text.\<close>

definition check_doc ::
  "world \<Rightarrow> (string \<times> string) list \<Rightarrow> string \<Rightarrow> string list option io" where
  "check_doc w headers github_org =
     say Stdout 246
       (io_bind (get_file_content w feature_branch_name feature_branch_doc_file headers
                   github_org target_repo)
          (\<lambda>doc_content.
             if doc_content = None \<or> doc_content = Some [] then say Stderr 255 (io_return None)
             else
               (let documented_labels =
                      parse_label_table (the doc_content) doc_parsing_table_header in
                if length documented_labels < doc_parsing_min_label_count
                then say Stderr 264 (io_return None)
                else say Stdout 266 (io_return (Some documented_labels)))))"

text \<open>\<^verbatim>\<open>[sec for sec in sections if sec not in body]\<close>\<close>

definition missing_sections :: "string list \<Rightarrow> json \<Rightarrow> exn + string list" where
  "missing_sections sections body =
     efilter (\<lambda>sec. ebind (py_contains sec body) (\<lambda>b. Inr (\<not> b))) sections"

text \<open>\<^verbatim>\<open>[kw for kw in wanted if kw.lower() not in body.lower()]\<close>\<close>

definition missing_keywords :: "string list \<Rightarrow> json \<Rightarrow> exn + string list" where
  "missing_keywords wanted body =
     efilter (\<lambda>kw. ebind (py_lower_of body) (\<lambda>b. Inr (\<not> py_in (py_lower kw) b))) wanted"

text \<open>\<^verbatim>\<open>[label["name"] for label in labels]\<close>\<close>

definition label_names :: "json \<Rightarrow> exn + json list" where
  "label_names labels = ebind (py_iter labels) (emap (\<lambda>label. py_item label ''name''))"

text \<open>\<^verbatim>\<open>[lbl for lbl in wanted if lbl not in names]\<close> for a list of values
  \<open>names\<close>: a string equals a value when the value is that string.\<close>

definition missing_labels :: "string list \<Rightarrow> json list \<Rightarrow> string list" where
  "missing_labels wanted names = filter (\<lambda>lbl. JStr lbl \<notin> set names) wanted"

text \<open>Lines 271 to 312: the issue. The result is \<^verbatim>\<open>issue_number\<close> and
  \<^verbatim>\<open>issue_labels\<close>.\<close>

definition check_issue ::
  "world \<Rightarrow> (string \<times> string) list \<Rightarrow> string \<Rightarrow> (json \<times> json list) option io" where
  "check_issue w headers github_org =
     say Stdout 271
       (io_bind (find_issue_by_keywords w issue_title_keywords headers github_org target_repo)
          (\<lambda>issue.
       if \<not> py_truthy issue then say Stderr 279 (io_return None)
       else
       io_bind (io_lift (py_item issue ''number'')) (\<lambda>issue_number.
       io_bind (io_lift (py_get issue ''body'' (JStr []))) (\<lambda>issue_body.
       io_bind (io_lift (ebind (py_get issue ''labels'' (JArr [])) label_names)) (\<lambda>issue_labels.
       io_bind (io_lift (missing_sections issue_required_sections issue_body))
          (\<lambda>missing_issue_sections.
       if missing_issue_sections \<noteq> [] then say Stderr 292 (io_return None)
       else
       io_bind (io_lift (missing_keywords issue_body_keywords issue_body))
          (\<lambda>missing_issue_keywords.
       if missing_issue_keywords \<noteq> [] then say Stderr 301 (io_return None)
       else
       (let missing_issue_labels = missing_labels issue_initial_labels issue_labels in
        if missing_issue_labels \<noteq> [] then say Stderr 310 (io_return None)
        else say Stdout 312 (io_return (Some (issue_number, issue_labels)))))))))))"

text \<open>Lines 317 to 360: the pull request. The result is \<^verbatim>\<open>pr_number\<close> and
  \<^verbatim>\<open>pr_labels\<close>.\<close>

definition check_pr ::
  "world \<Rightarrow> (string \<times> string) list \<Rightarrow> string \<Rightarrow> json \<Rightarrow> (json \<times> json) option io" where
  "check_pr w headers github_org issue_number =
     say Stdout 317
       (io_bind (find_pr_by_keywords w pr_title_keywords headers github_org target_repo)
          (\<lambda>pr.
       if \<not> py_truthy pr then say Stderr 325 (io_return None)
       else
       io_bind (io_lift (py_item pr ''number'')) (\<lambda>pr_number.
       io_bind (io_lift (py_get pr ''body'' (JStr []))) (\<lambda>pr_body.
       io_bind (io_lift (py_get pr ''labels'' (JArr []))) (\<lambda>pr_labels.
       (let expected_issue_ref =
              py_replace ''{issue_number}'' (py_str issue_number) pr_issue_reference_pattern in
       io_bind (io_lift (py_lower_of pr_body)) (\<lambda>pr_body_lower.
       if \<not> py_in (py_lower expected_issue_ref) pr_body_lower
       then say Stderr 335 (io_return None)
       else
       io_bind (io_lift (missing_sections pr_required_sections pr_body))
          (\<lambda>missing_pr_sections.
       if missing_pr_sections \<noteq> [] then say Stderr 344 (io_return None)
       else
       io_bind (io_lift (missing_keywords pr_body_keywords pr_body))
          (\<lambda>missing_pr_keywords.
       if missing_pr_keywords \<noteq> [] then say Stderr 353 (io_return None)
       else
       io_bind (io_lift (py_len pr_labels)) (\<lambda>n.
       if n < pr_min_labels_count then say Stderr 358 (io_return None)
       else say Stdout 360 (io_return (Some (pr_number, pr_labels)))))))))))))"

text \<open>Lines 365 to 373: every expected label on the issue.\<close>

definition check_issue_labels :: "json list \<Rightarrow> unit option io" where
  "check_issue_labels issue_labels =
     say Stdout 365
       (let missing_issue_all_labels = missing_labels expected_labels issue_labels in
        if missing_issue_all_labels \<noteq> [] then say Stderr 371 (io_return None)
        else say Stdout 373 (io_return (Some ())))"

text \<open>
  Lines 382 to 404: the loop over the comments, with \<^verbatim>\<open>valid_comment_found\<close> as
  its result: \<open>True\<close> is the \<^verbatim>\<open>break\<close>, \<open>False\<close> the end of the list.
\<close>

fun scan_comments :: "json \<Rightarrow> json list \<Rightarrow> exn + bool" where
  "scan_comments pr_number [] = Inr False"
| "scan_comments pr_number (comment # comments) =
     ebind (py_get comment ''body'' (JStr [])) (\<lambda>b.
     ebind (py_lower_of b) (\<lambda>comment_body.
       (let expected_pr_ref =
              py_replace ''{pr_number}'' (py_str pr_number) comment_pr_reference_flag in
        if \<not> py_in (py_lower expected_pr_ref) comment_body
        then scan_comments pr_number comments
        else
          (let has_all_keywords = all_keywords_in comment_keywords comment_body in
           if \<not> has_all_keywords then scan_comments pr_number comments
           else
             (let has_all_flags = all_keywords_in comment_content_flags comment_body in
              if has_all_flags then Inr True
              else scan_comments pr_number comments)))))"

text \<open>Lines 378 to 409: the comments of the issue.\<close>

definition check_comments ::
  "world \<Rightarrow> (string \<times> string) list \<Rightarrow> string \<Rightarrow> json \<Rightarrow> json \<Rightarrow> unit option io" where
  "check_comments w headers github_org issue_number pr_number =
     say Stdout 378
       (io_bind (get_issue_comments w issue_number headers github_org target_repo)
          (\<lambda>issue_comments.
       io_bind (io_lift (ebind (py_iter issue_comments) (scan_comments pr_number)))
          (\<lambda>valid_comment_found.
       if \<not> valid_comment_found then say Stderr 407 (io_return None)
       else say Stdout 409 (io_return (Some ())))))"

text \<open>Lines 414 to 432: the document against the expected labels; a label of the
  document that is not expected is a warning on standard output only.\<close>

definition check_doc_consistency :: "string list \<Rightarrow> unit option io" where
  "check_doc_consistency documented_labels =
     say Stdout 414
       (let missing_in_doc = filter (\<lambda>lbl. lbl \<notin> set documented_labels) expected_labels in
        if missing_in_doc \<noteq> [] then say Stderr 421 (io_return None)
        else
          (let unexpected_in_doc =
                 filter (\<lambda>lbl. lbl \<notin> set expected_labels) documented_labels in
           if unexpected_in_doc \<noteq> []
           then say Stdout 430 (say Stdout 432 (io_return (Some ())))
           else say Stdout 432 (io_return (Some ()))))"

text \<open>Lines 441 to 446: the core labels, those of them the pull request lacks, and
  the test that fails the step.\<close>

definition core_expected_labels :: "string list" where
  "core_expected_labels = take 10 expected_labels"

definition missing_pr_core_labels :: "json list \<Rightarrow> string list" where
  "missing_pr_core_labels pr_label_names = missing_labels core_expected_labels pr_label_names"

definition too_many_core_labels_missing :: "json list \<Rightarrow> bool" where
  "too_many_core_labels_missing pr_label_names =
     (length (missing_pr_core_labels pr_label_names) > length core_expected_labels div 2)"

text \<open>Lines 437 to 450: the labels of the pull request.\<close>

definition check_pr_labels :: "json \<Rightarrow> unit option io" where
  "check_pr_labels pr_labels =
     say Stdout 437
       (io_bind (io_lift (label_names pr_labels)) (\<lambda>pr_label_names.
          if too_many_core_labels_missing pr_label_names then say Stderr 447 (io_return None)
          else say Stdout 450 (io_return (Some ()))))"

text \<open>Lines 455 to 463: the summary and \<^verbatim>\<open>return True\<close>.\<close>

definition finish :: "bool io" where
  "finish =
     say Stdout 455 (say Stdout 456 (say Stdout 457 (say Stdout 458 (say Stdout 459
       (say Stdout 460 (say Stdout 461 (say Stdout 462 (io_return True))))))))"

text \<open>
  The whole function. Every event carries the number of the step whose section of
  the source printed it, as the comments of the source number them (the two sections
  up to line 230 are both step 1, the summary is step 10). \<open>and_then\<close> runs a
  section and goes on with the rest of the function, unless the section raised or
  ran \<^verbatim>\<open>return False\<close>.
\<close>

type_synonym step_event = "nat \<times> event"

definition in_step :: "nat \<Rightarrow> 'a io \<Rightarrow> step_event list \<times> (exn + 'a)" where
  "in_step k m = (map (\<lambda>e. (k, e)) (fst m), snd m)"

fun and_then ::
  "step_event list \<times> (exn + 'a option) \<Rightarrow> ('a \<Rightarrow> step_event list \<times> (exn + bool))
     \<Rightarrow> step_event list \<times> (exn + bool)" where
  "and_then (out, Inl e) f = (out, Inl e)"
| "and_then (out, Inr None) f = (out, Inr False)"
| "and_then (out, Inr (Some x)) f = (case f x of (out', r) \<Rightarrow> (out @ out', r))"

definition verify_label_standardization :: "world \<Rightarrow> step_event list \<times> (exn + bool)" where
  "verify_label_standardization w =
     and_then (in_step 1 (load_env w)) (\<lambda>(github_token, github_org).
     and_then (in_step 1 (check_headers github_token)) (\<lambda>headers.
     and_then (in_step 2 (check_branch w headers github_org)) (\<lambda>_.
     and_then (in_step 3 (check_doc w headers github_org)) (\<lambda>documented_labels.
     and_then (in_step 4 (check_issue w headers github_org)) (\<lambda>(issue_number, issue_labels).
     and_then (in_step 5 (check_pr w headers github_org issue_number)) (\<lambda>(pr_number, pr_labels).
     and_then (in_step 6 (check_issue_labels issue_labels)) (\<lambda>_.
     and_then (in_step 7 (check_comments w headers github_org issue_number pr_number)) (\<lambda>_.
     and_then (in_step 8 (check_doc_consistency documented_labels)) (\<lambda>_.
     and_then (in_step 9 (check_pr_labels pr_labels)) (\<lambda>_.
     in_step 10 finish))))))))))"

text \<open>
  The entry point (lines 469 to 478): the output of the run and the exit status.
  \<^verbatim>\<open>sys.exit\<close> is called with 0 for \<^verbatim>\<open>True\<close> and 1 for \<^verbatim>\<open>False\<close>; a
  \<^verbatim>\<open>KeyboardInterrupt\<close> and any other exception each print one line and exit with 1.
\<close>

definition main :: "world \<Rightarrow> event list \<times> nat" where
  "main w =
     (case verify_label_standardization w of
        (out, Inr verification_result) \<Rightarrow>
          (map snd out, if verification_result then 0 else 1)
      | (out, Inl e) \<Rightarrow>
          if e = KeyboardInterrupt then (map snd out @ [(Stdout, 474)], 1)
          else (map snd out @ [(Stdout, 477)], 1))"

section \<open>Notions used to state the properties\<close>

subsection \<open>Items and titles\<close>

text \<open>
  The finders are stated on listings of items as the API gives them: objects whose
  title, when present, is a string. \<open>item_title\<close> is the title the finder reads (the
  empty string when the key is absent) and \<open>None\<close> for a value that is no such item.
\<close>

fun item_title :: "json \<Rightarrow> string option" where
  "item_title (JObj kvs) =
     (case map_of kvs ''title'' of
        None \<Rightarrow> Some []
      | Some (JStr t) \<Rightarrow> Some t
      | Some _ \<Rightarrow> None)"
| "item_title _ = None"

text \<open>The item carries a \<^verbatim>\<open>pull_request\<close> field.\<close>

fun has_pull_request :: "json \<Rightarrow> bool" where
  "has_pull_request (JObj kvs) = (''pull_request'' \<in> set (map fst kvs))"
| "has_pull_request _ = False"

text \<open>The match rule in the words of the specification: every keyword occurs in the
  title, both taken in lower case.\<close>

definition title_matches :: "string list \<Rightarrow> json \<Rightarrow> bool" where
  "title_matches wanted item =
     (case item_title item of
        None \<Rightarrow> False
      | Some t \<Rightarrow> list_all (\<lambda>kw. py_in (py_lower kw) (py_lower t)) wanted)"

text \<open>The first item in listing order, the open listing before the closed one.\<close>

definition first_match :: "('a \<Rightarrow> bool) \<Rightarrow> 'a list \<Rightarrow> 'a list \<Rightarrow> 'a option" where
  "first_match P open_items closed_items = List.find P (open_items @ closed_items)"

definition or_null :: "json option \<Rightarrow> json" where
  "or_null r = (case r of None \<Rightarrow> JNull | Some item \<Rightarrow> item)"

subsection \<open>Compliant comments\<close>

text \<open>
  The lower-cased body of a comment (of the empty string when the key is absent);
  \<open>None\<close> for a value that is not an object with a string body.
\<close>

fun comment_body_lower :: "json \<Rightarrow> string option" where
  "comment_body_lower (JObj kvs) =
     (case map_of kvs ''body'' of
        None \<Rightarrow> Some []
      | Some (JStr b) \<Rightarrow> Some (py_lower b)
      | Some _ \<Rightarrow> None)"
| "comment_body_lower _ = None"

text \<open>The three groups of the specification: the reference template with the number
  of the pull request put in, the required keywords, the required content flags; each
  is looked for in lower case in the lower-cased body.\<close>

definition pr_reference :: "json \<Rightarrow> string" where
  "pr_reference pr_number =
     py_replace ''{pr_number}'' (py_str pr_number) comment_pr_reference_flag"

definition has_pr_reference :: "json \<Rightarrow> string \<Rightarrow> bool" where
  "has_pr_reference pr_number body = py_in (py_lower (pr_reference pr_number)) body"

definition has_required_keywords :: "string \<Rightarrow> bool" where
  "has_required_keywords body = list_all (\<lambda>kw. py_in (py_lower kw) body) comment_keywords"

definition has_content_flags :: "string \<Rightarrow> bool" where
  "has_content_flags body = list_all (\<lambda>flag. py_in (py_lower flag) body) comment_content_flags"

definition compliant :: "json \<Rightarrow> json \<Rightarrow> bool" where
  "compliant pr_number comment =
     (case comment_body_lower comment of
        None \<Rightarrow> False
      | Some body \<Rightarrow> has_pr_reference pr_number body \<and> has_required_keywords body
                       \<and> has_content_flags body)"

subsection \<open>The output of a run\<close>

text \<open>
  The failure messages of the pipeline are the lines printed to the error stream just
  before a \<^verbatim>\<open>return False\<close>. Everything else is routine: the progress text on standard
  output and the diagnostics of the API client and of the file decoder (lines 28, 31,
  34 and 62), which go to the error stream without ending the run.
\<close>

definition failure_lines :: "nat list" where
  "failure_lines = [200, 203, 227, 239, 255, 264, 279, 292, 301, 310, 325, 335, 344, 353, 358,
     371, 407, 421, 447]"


definition routine :: "event \<Rightarrow> bool" where
  "routine e = (fst e = Stdout \<or> snd e \<in> {28, 31, 34, 62})"

text \<open>The line that closes each step when it passes, and the last line of the
  summary.\<close>

definition completion_events :: "step_event list" where
  "completion_events =
     [(1, Stdout, 230), (2, Stdout, 241), (3, Stdout, 266), (4, Stdout, 312), (5, Stdout, 360),
      (6, Stdout, 373), (7, Stdout, 409), (8, Stdout, 432), (9, Stdout, 450), (10, Stdout, 462)]"

text \<open>
  Three invariants carry the proofs. A computation \<open>emits\<close> when all its output is
  routine. A section of the pipeline has the \<open>shape\<close> \<open>F C\<close> when it ends in
  \<^verbatim>\<open>return False\<close> exactly after a failure message of \<open>F\<close> as its last line, with
  routine output before, and otherwise prints routine output only, with the lines \<open>C\<close>
  among it when it passes. \<open>pshape k C\<close> says the same of a rest of the pipeline
  that starts at step \<open>k\<close>, and that its lines come in the order of the steps.
\<close>

definition emits :: "'a io \<Rightarrow> bool" where
  "emits m = (\<forall>e \<in> set (fst m). routine e)"

definition shape :: "nat set \<Rightarrow> event set \<Rightarrow> 'a option io \<Rightarrow> bool" where
  "shape F C m =
     (case snd m of
        Inl e \<Rightarrow> emits m
      | Inr None \<Rightarrow> fst m \<noteq> [] \<and> fst (last (fst m)) = Stderr \<and> snd (last (fst m)) \<in> F
                     \<and> (\<forall>e \<in> set (butlast (fst m)). routine e)
      | Inr (Some x) \<Rightarrow> emits m \<and> C \<subseteq> set (fst m))"

definition reachable_failure_lines :: "nat set" where
  "reachable_failure_lines = set failure_lines - {227}"

definition pshape :: "nat \<Rightarrow> step_event set \<Rightarrow> step_event list \<times> (exn + bool) \<Rightarrow> bool" where
  "pshape k C p =
     (sorted (map fst (fst p)) \<and> (\<forall>e \<in> set (fst p). k \<le> fst e) \<and>
      (case snd p of
         Inl x \<Rightarrow> (\<forall>e \<in> set (fst p). routine (snd e))
       | Inr False \<Rightarrow> fst p \<noteq> [] \<and> fst (snd (last (fst p))) = Stderr
             \<and> snd (snd (last (fst p))) \<in> reachable_failure_lines
             \<and> (\<forall>e \<in> set (butlast (fst p)). routine (snd e))
       | Inr True \<Rightarrow> (\<forall>e \<in> set (fst p). routine (snd e)) \<and> C \<subseteq> set (fst p)))"

section \<open>Example runs\<close>

text \<open>A world whose every request has the same outcome; with a
  \<^verbatim>\<open>KeyboardInterrupt\<close> it is a user who interrupts the first request, with status 404 a
  repository without the feature branch.\<close>

definition constant_world :: "http_result \<Rightarrow> world" where
  "constant_world r =
     \<lparr> GITHUB_TOKEN = Some ''secret'', GITHUB_ORG = Some ''acme'',
       requests_get = (\<lambda>url headers. r),
       b64decode_utf8 = (\<lambda>content. None) \<rparr>"

definition interrupted_world :: world where
  "interrupted_world = constant_world (Raises KeyboardInterrupt)"

definition no_branch_world :: world where
  "no_branch_world = constant_world (Response 404 None)"

text \<open>A world with two listings of issues and two of pull requests.\<close>

definition listing_api :: "string \<Rightarrow> (string \<times> string) list \<Rightarrow> http_result" where
  "listing_api url headers =
    (if url = ''https://api.github.com/repos/acme/r/issues?state=open&per_page=30''
       then Response 200 (Some (JArr
              [JObj [(''number'', JNum 3), (''title'', JStr ''LABEL Standard Documentation''),
                     (''pull_request'', JObj [])],
               JObj [(''number'', JNum 4), (''title'', JStr ''Label colours'')]]))
     else if url = ''https://api.github.com/repos/acme/r/issues?state=closed&per_page=30''
       then Response 200 (Some (JArr
              [JObj [(''number'', JNum 1), (''title'', JStr ''Standard label documentation'')],
               JObj [(''number'', JNum 2), (''title'', JStr ''label standard documentation'')]]))
     else if url = ''https://api.github.com/repos/acme/r/pulls?state=open&per_page=30''
       then Response 200 (Some (JArr
              [JObj [(''number'', JNum 3), (''title'', JStr ''LABEL Standard Documentation'')]]))
     else if url = ''https://api.github.com/repos/acme/r/pulls?state=closed&per_page=30''
       then Response 200 (Some (JArr []))
     else Response 404 None)"

definition listing_world :: world where
  "listing_world =
     \<lparr> GITHUB_TOKEN = Some ''secret'', GITHUB_ORG = Some ''acme'',
       requests_get = listing_api,
       b64decode_utf8 = (\<lambda>content. None) \<rparr>"

text \<open>
  A repository in which the whole workflow was carried out: the branch, a document
  with the 22 expected labels, issue 7 with the body given as argument and all the
  labels, pull request 8 with five core labels, and a compliant comment. For the sake
  of the example the decoder returns the content of the file as it is.
\<close>

definition example_document :: string where
  "example_document =
     concat (map (\<lambda>line. line @ [CHR 0x0A])
       ([''# Labels'', [], doc_parsing_table_header, ''|---|---|---|'']
        @ map (\<lambda>name. ''| '' @ name @ '' | #fff | x |'') expected_labels
        @ [[], ''Done.'']))"

definition example_issue :: "json \<Rightarrow> json" where
  "example_issue body =
     JObj [(''number'', JNum 7), (''title'', JStr ''Label standard documentation''),
           (''body'', body),
           (''labels'', JArr (map (\<lambda>name. JObj [(''name'', JStr name)]) expected_labels))]"

definition example_pr :: json where
  "example_pr =
     JObj [(''number'', JNum 8), (''title'', JStr ''Add label standard documentation''),
           (''body'', JStr ''## Summary label documentation standard ## Changes Fixes #7''),
           (''labels'', JArr (map (\<lambda>name. JObj [(''name'', JStr name)]) (take 5 expected_labels)))]"

definition example_api :: "json \<Rightarrow> string \<Rightarrow> (string \<times> string) list \<Rightarrow> http_result" where
  "example_api body url headers =
    (if url = ''https://api.github.com/repos/acme/team-project-management/branches/feat/label-color-standard''
       then Response 200 (Some (JObj [(''name'', JStr ''feat/label-color-standard'')]))
     else if url = ''https://api.github.com/repos/acme/team-project-management/contents/docs/label-color-standardization.md?ref=feat/label-color-standard''
       then Response 200 (Some (JObj [(''content'', JStr example_document)]))
     else if url = ''https://api.github.com/repos/acme/team-project-management/issues?state=open&per_page=30''
       then Response 200 (Some (JArr [example_issue body]))
     else if url = ''https://api.github.com/repos/acme/team-project-management/pulls?state=closed&per_page=30''
       then Response 200 (Some (JArr [example_pr]))
     else if url = ''https://api.github.com/repos/acme/team-project-management/issues/7/comments''
       then Response 200 (Some (JArr [JObj [(''body'', JStr ''Thanks!'')],
               JObj [(''body'', JStr ''Label documentation completed in PR #8: labels verified and applied'')]]))
     else Response 404 None)"

definition example_world :: "json \<Rightarrow> world" where
  "example_world body =
     \<lparr> GITHUB_TOKEN = Some ''secret'', GITHUB_ORG = Some ''acme'',
       requests_get = example_api body,
       b64decode_utf8 = (\<lambda>content. case content of JStr s \<Rightarrow> Some s | _ \<Rightarrow> None) \<rparr>"

section \<open>Properties of the table parser\<close>

lemma startswith_bar3: "py_startswith line ''|---'' \<Longrightarrow> py_startswith line ''|''"
  by (cases line) (auto simp: py_startswith_def)

lemma parse_loop_in_table:
  "parse_loop h True acc ls =
     acc @ concat (map (row_labels h) (takeWhile (\<lambda>l. \<not> ends_table h l) ls))"
proof (induction ls arbitrary: acc)
  case Nil
  show ?case by simp
next
  case (Cons l ls)
  show ?case
    using startswith_bar3[of l]
    by (auto simp: Cons.IH ends_table_def row_labels_def Let_def)
qed

lemma parse_loop_outside:
  "parse_loop h False acc ls =
     acc @ concat (map (row_labels h) (table_rows h ls))"
proof (induction ls)
  case Nil
  show ?case by (simp add: table_rows_def)
next
  case (Cons l ls)
  show ?case
  proof (cases "py_in h l")
    case True
    then show ?thesis
      by (simp add: parse_loop_in_table table_rows_def)
  next
    case False
    then show ?thesis
      using Cons.IH by (simp add: table_rows_def)
  qed
qed

lemma parse_label_table_rows:
  "parse_label_table content h =
     concat (map (row_labels h) (table_rows h (py_split (CHR 0x0A) content)))"
  by (simp add: parse_label_table_def parse_loop_outside)

lemmas parser_eval = parse_label_table_def py_startswith_def row_cells_def py_strip_def
  py_isspace_def

text \<open>
  Claim C1, as the code has it. For every document and header marker, the result of
  \<^verbatim>\<open>_parse_label_table\<close> is made row by row from the table rows (the lines met while the
  parser is inside the table): a row that begins with a vertical bar, does not begin
  with \<^verbatim>\<open>|---\<close> and does not contain the header marker is split on the bar, each cell
  stripped, and if it has at least 4 cells its cell at index 1 is appended, unless that
  cell is empty or equals \<^verbatim>\<open>Label Name\<close>. Every other row, and in particular a row with
  fewer than 4 cells, adds nothing.
\<close>

theorem parse_label_table_row_rule:
  "parse_label_table content table_header =
     concat (map (\<lambda>line.
         if py_startswith line ''|'' \<and> \<not> py_startswith line ''|---''
            \<and> \<not> py_in table_header line
            \<and> 4 \<le> length (row_cells line)
            \<and> row_cells line ! 1 \<noteq> [] \<and> row_cells line ! 1 \<noteq> ''Label Name''
         then [row_cells line ! 1] else [])
       (table_rows table_header (py_split (CHR 0x0A) content)))"
proof -
  have "row_labels table_header = (\<lambda>line.
         if py_startswith line ''|'' \<and> \<not> py_startswith line ''|---''
            \<and> \<not> py_in table_header line
            \<and> 4 \<le> length (row_cells line)
            \<and> row_cells line ! 1 \<noteq> [] \<and> row_cells line ! 1 \<noteq> ''Label Name''
         then [row_cells line ! 1] else [])"
    by (rule ext) (simp add: row_labels_def)
  then show ?thesis
    using parse_label_table_rows[of content table_header] by simp
qed

text \<open>The rule of claim C1 at a document with a good row, a short row and an empty
  label cell.\<close>

theorem parse_label_table_row_rule_witness:
  "parse_label_table
     (''| Label Name | Color Hex | Category |'' @ [CHR 0x0A] @ ''| bug | #d73a4a | Type |''
        @ [CHR 0x0A] @ ''| x'' @ [CHR 0x0A] @ ''|  | #ffffff | misc |'')
     ''| Label Name | Color Hex | Category |'' = [''bug'']"
  using parse_label_table_row_rule[of
     "''| Label Name | Color Hex | Category |'' @ [CHR 0x0A] @ ''| bug | #d73a4a | Type |''
        @ [CHR 0x0A] @ ''| x'' @ [CHR 0x0A] @ ''|  | #ffffff | misc |''"
     "''| Label Name | Color Hex | Category |''"]
  by (simp add: table_rows_def ends_table_def py_startswith_def row_cells_def py_strip_def
      py_isspace_def)

text \<open>
  Claim C1 as stated fails. The row \<^verbatim>\<open>|  | #ffffff | misc |\<close> is a table row of the
  document below, begins with a vertical bar and has at least 4 cells; its cell at
  index 1 is the empty string, which is not \<^verbatim>\<open>Label Name\<close>, and yet it is not in the
  result: line 86 of the source also requires \<^verbatim>\<open>label_name\<close> to be non-empty.
\<close>

theorem empty_cell_counterexample:
  "py_startswith ''|  | #ffffff | misc |'' ''|''
   \<and> 4 \<le> length (row_cells ''|  | #ffffff | misc |'')
   \<and> row_cells ''|  | #ffffff | misc |'' ! 1 \<noteq> ''Label Name''
   \<and> table_rows ''| Label Name | Color Hex | Category |''
        (py_split (CHR 0x0A) (''| Label Name | Color Hex | Category |'' @ [CHR 0x0A] @ ''|  | #ffffff | misc |''))
       = [''|  | #ffffff | misc |'']
   \<and> row_cells ''|  | #ffffff | misc |'' ! 1 \<notin> set (parse_label_table
        (''| Label Name | Color Hex | Category |'' @ [CHR 0x0A] @ ''|  | #ffffff | misc |'')
        ''| Label Name | Color Hex | Category |'')"
  by (simp add: parser_eval table_rows_def ends_table_def)

lemma parse_loop_stops:
  assumes "\<forall>l \<in> set ls. \<not> ends_table h l" and "ends_table h stop"
  shows "parse_loop h True acc (ls @ stop # later) = parse_loop h True acc ls"
proof -
  have "takeWhile (\<lambda>l. \<not> ends_table h l) (ls @ stop # later) = ls"
    using assms by (simp add: takeWhile_append2)
  moreover have "takeWhile (\<lambda>l. \<not> ends_table h l) ls = ls"
    using assms(1) by (simp add: takeWhile_eq_all_conv)
  ultimately show ?thesis by (simp only: parse_loop_in_table)
qed

lemma table_rows_stop_first:
  assumes "\<forall>l \<in> set pre. \<not> py_in h l" and "py_in h hl" and "ends_table h stop"
  shows "table_rows h (pre @ hl # stop # post) = []"
proof -
  have "dropWhile (\<lambda>l. \<not> py_in h l) (pre @ hl # stop # post) = hl # stop # post"
    using assms(1,2) by (simp add: dropWhile_append3)
  then show ?thesis using assms(3) by (simp add: table_rows_def)
qed

text \<open>
  Claim C2, as the code has it. Once \<^verbatim>\<open>in_table\<close> is set: (1) after rows that do not
  end the table, the first line that is not empty, does not start with a vertical bar
  and does not contain the header marker stops the scan, so that nothing after it
  (a later table included) changes the result; (2) an empty line does not stop the
  scan; (3) a document whose first header line is directly followed by such a stopping
  line yields no label.
\<close>

theorem table_scan_stops:
  "((\<forall>l \<in> set rows. py_in h l \<or> l = [] \<or> py_startswith l ''|'')
      \<and> \<not> py_in h stop \<and> stop \<noteq> [] \<and> \<not> py_startswith stop ''|''
     \<longrightarrow> parse_loop h True acc (rows @ stop # later) = parse_loop h True acc rows)
   \<and> parse_loop h True acc ([] # rest) = parse_loop h True acc rest
   \<and> ((\<forall>l \<in> set pre. \<not> py_in h l) \<and> py_in h hl
      \<and> \<not> py_in h stop \<and> stop \<noteq> [] \<and> \<not> py_startswith stop ''|''
      \<and> py_split (CHR 0x0A) content = pre @ hl # stop # post
     \<longrightarrow> parse_label_table content h = [])"
proof (intro conjI impI)
  assume a: "(\<forall>l \<in> set rows. py_in h l \<or> l = [] \<or> py_startswith l ''|'')
      \<and> \<not> py_in h stop \<and> stop \<noteq> [] \<and> \<not> py_startswith stop ''|''"
  then have "\<forall>l \<in> set rows. \<not> ends_table h l" "ends_table h stop"
    by (auto simp: ends_table_def)
  then show "parse_loop h True acc (rows @ stop # later) = parse_loop h True acc rows"
    by (rule parse_loop_stops)
next
  show "parse_loop h True acc ([] # rest) = parse_loop h True acc rest"
    by (simp add: py_startswith_def)
next
  assume a: "(\<forall>l \<in> set pre. \<not> py_in h l) \<and> py_in h hl
      \<and> \<not> py_in h stop \<and> stop \<noteq> [] \<and> \<not> py_startswith stop ''|''
      \<and> py_split (CHR 0x0A) content = pre @ hl # stop # post"
  then have "table_rows h (py_split (CHR 0x0A) content) = []"
    using table_rows_stop_first[of pre h hl stop post] by (simp add: ends_table_def)
  then show "parse_label_table content h = []"
    by (simp add: parse_label_table_rows)
qed

text \<open>Claim C2 at a table of two rows and an empty line closed by a line of prose,
  and at a document whose header line is followed by prose.\<close>

theorem table_scan_stops_witness:
  "parse_loop ''| Label Name |'' True [''a'']
      ([''| bug | x | y |'', [], ''| task | x | y |''] @ ''The end.'' # [''| late | x | y |''])
     = parse_loop ''| Label Name |'' True [''a''] [''| bug | x | y |'', [], ''| task | x | y |'']
   \<and> parse_loop ''| Label Name |'' True [''a''] ([] # [''| task | x | y |''])
     = parse_loop ''| Label Name |'' True [''a''] [''| task | x | y |'']
   \<and> parse_label_table (''intro'' @ [CHR 0x0A] @ ''| Label Name |'' @ [CHR 0x0A] @ ''The end.''
        @ [CHR 0x0A] @ ''| bug | x | y |'') ''| Label Name |'' = []"
proof -
  have h1: "(\<forall>l \<in> set [''| bug | x | y |'', [], ''| task | x | y |''].
               py_in ''| Label Name |'' l \<or> l = [] \<or> py_startswith l ''|'')
      \<and> \<not> py_in ''| Label Name |'' ''The end.'' \<and> ''The end.'' \<noteq> []
      \<and> \<not> py_startswith ''The end.'' ''|''"
    by (simp add: py_startswith_def)
  have h3: "(\<forall>l \<in> set [''intro'']. \<not> py_in ''| Label Name |'' l)
      \<and> py_in ''| Label Name |'' ''| Label Name |''
      \<and> \<not> py_in ''| Label Name |'' ''The end.'' \<and> ''The end.'' \<noteq> []
      \<and> \<not> py_startswith ''The end.'' ''|''
      \<and> py_split (CHR 0x0A) (''intro'' @ [CHR 0x0A] @ ''| Label Name |'' @ [CHR 0x0A] @ ''The end.''
        @ [CHR 0x0A] @ ''| bug | x | y |'') = [''intro''] @ ''| Label Name |'' # ''The end.'' # [''| bug | x | y |'']"
    by (simp add: py_startswith_def)
  note t = table_scan_stops[where rows = "[''| bug | x | y |'', [], ''| task | x | y |'']"
        and h = "''| Label Name |''" and stop = "''The end.''" and acc = "[''a'']"
        and later = "[''| late | x | y |'']" and rest = "[''| task | x | y |'']"
        and pre = "[''intro'']" and hl = "''| Label Name |''"
        and content = "''intro'' @ [CHR 0x0A] @ ''| Label Name |'' @ [CHR 0x0A] @ ''The end.'' @ [CHR 0x0A] @ ''| bug | x | y |''"
        and post = "[''| bug | x | y |'']"]
  have c1: "parse_loop ''| Label Name |'' True [''a'']
      ([''| bug | x | y |'', [], ''| task | x | y |''] @ ''The end.'' # [''| late | x | y |''])
     = parse_loop ''| Label Name |'' True [''a''] [''| bug | x | y |'', [], ''| task | x | y |'']"
    using t[THEN conjunct1] h1 by (rule mp)
  have c2: "parse_loop ''| Label Name |'' True [''a''] ([] # [''| task | x | y |''])
     = parse_loop ''| Label Name |'' True [''a''] [''| task | x | y |'']"
    using t[THEN conjunct2, THEN conjunct1] .
  have c3: "parse_label_table (''intro'' @ [CHR 0x0A] @ ''| Label Name |'' @ [CHR 0x0A] @ ''The end.''
        @ [CHR 0x0A] @ ''| bug | x | y |'') ''| Label Name |'' = []"
    using t[THEN conjunct2, THEN conjunct2] h3 by (rule mp)
  show ?thesis
    by (rule conjI[OF c1 conjI[OF c2 c3]])
qed

text \<open>
  Claim C2 as stated fails. The second line of the document below is not empty and
  does not start with a vertical bar (it starts with a space), and it directly follows
  the header line; but it contains the header marker, so line 75 of the source takes
  it for a header line and the scan goes on: the result is not empty.
\<close>

theorem header_like_line_counterexample:
  "'' | Label Name | Color Hex | Category |'' \<noteq> []
   \<and> \<not> py_startswith '' | Label Name | Color Hex | Category |'' ''|''
   \<and> parse_label_table
        (''| Label Name | Color Hex | Category |'' @ [CHR 0x0A]
          @ '' | Label Name | Color Hex | Category |'' @ [CHR 0x0A]
          @ ''| bug | #d73a4a | Type |'')
        ''| Label Name | Color Hex | Category |'' = [''bug'']"
  by (simp add: parser_eval)

lemma py_split_nonempty: "py_split c s \<noteq> []"
  by (induction s) (auto split: list.splits)















section \<open>Properties of the API client and the finders\<close>

lemma get_github_api_ok:
  "requests_get w (''https://api.github.com/repos/'' @ org @ ''/'' @ repo @ ''/'' @ endpoint) headers
     = Response 200 (Some data)
   \<Longrightarrow> get_github_api w endpoint headers org repo = ([], Inr (True, data))"
  by (simp add: get_github_api_def io_return_def)

text \<open>
  Claim C6. For every endpoint and headers, \<^verbatim>\<open>_get_github_api\<close> returns \<^verbatim>\<open>(True, data)\<close>
  on status 200 with the parsed body \<open>data\<close>, and \<^verbatim>\<open>(False, None)\<close> on status 404, on
  any other status, when the body of a 200 response does not parse, and when
  \<^verbatim>\<open>requests.get\<close> raises an \<^verbatim>\<open>Exception\<close>; each of the four writes one line to the
  error stream. No \<^verbatim>\<open>Exception\<close> ever leaves the function.
\<close>

theorem get_github_api_results:
  "(requests_get w (''https://api.github.com/repos/'' @ org @ ''/'' @ repo @ ''/'' @ endpoint) headers
       = Response 200 (Some data)
     \<longrightarrow> get_github_api w endpoint headers org repo = ([], Inr (True, data)))
   \<and> (requests_get w (''https://api.github.com/repos/'' @ org @ ''/'' @ repo @ ''/'' @ endpoint) headers
       = Response 404 body
     \<longrightarrow> get_github_api w endpoint headers org repo = ([(Stderr, 28)], Inr (False, JNull)))
   \<and> (requests_get w (''https://api.github.com/repos/'' @ org @ ''/'' @ repo @ ''/'' @ endpoint) headers
       = Response status body \<and> status \<noteq> 200 \<and> status \<noteq> 404
     \<longrightarrow> get_github_api w endpoint headers org repo = ([(Stderr, 31)], Inr (False, JNull)))
   \<and> (requests_get w (''https://api.github.com/repos/'' @ org @ ''/'' @ repo @ ''/'' @ endpoint) headers
       = Response 200 None
     \<longrightarrow> get_github_api w endpoint headers org repo = ([(Stderr, 34)], Inr (False, JNull)))
   \<and> (requests_get w (''https://api.github.com/repos/'' @ org @ ''/'' @ repo @ ''/'' @ endpoint) headers
       = Raises e \<and> is_Exception e
     \<longrightarrow> get_github_api w endpoint headers org repo = ([(Stderr, 34)], Inr (False, JNull)))
   \<and> (\<forall>x. snd (get_github_api w endpoint headers org repo) = Inl x \<longrightarrow> \<not> is_Exception x)"
  by (auto simp: get_github_api_def io_return_def io_lift_def Let_def
      split: http_result.splits option.splits)

text \<open>Claim C6 at a response of each kind; the last two conjuncts show the one
  thing that does leave the function, a \<^verbatim>\<open>KeyboardInterrupt\<close>, which is not an
  \<^verbatim>\<open>Exception\<close>.\<close>

theorem get_github_api_results_witness:
  "get_github_api (constant_world (Response 200 (Some (JArr [])))) ''issues'' [] ''acme'' ''r''
     = ([], Inr (True, JArr []))
   \<and> get_github_api (constant_world (Response 404 None)) ''issues'' [] ''acme'' ''r''
     = ([(Stderr, 28)], Inr (False, JNull))
   \<and> get_github_api (constant_world (Response 500 None)) ''issues'' [] ''acme'' ''r''
     = ([(Stderr, 31)], Inr (False, JNull))
   \<and> get_github_api (constant_world (Response 200 None)) ''issues'' [] ''acme'' ''r''
     = ([(Stderr, 34)], Inr (False, JNull))
   \<and> get_github_api (constant_world (Raises RequestException)) ''issues'' [] ''acme'' ''r''
     = ([(Stderr, 34)], Inr (False, JNull))
   \<and> snd (get_github_api (constant_world (Raises KeyboardInterrupt)) ''issues'' [] ''acme'' ''r'')
     = Inl KeyboardInterrupt
   \<and> \<not> is_Exception KeyboardInterrupt"
proof -
  have c1: "get_github_api (constant_world (Response 200 (Some (JArr [])))) ''issues'' [] ''acme'' ''r''
     = ([], Inr (True, JArr []))"
    using get_github_api_results[where w = "constant_world (Response 200 (Some (JArr [])))"
        and endpoint = "''issues''" and headers = "[]" and org = "''acme''" and repo = "''r''"
        and data = "JArr []", THEN conjunct1]
    by (simp add: constant_world_def)
  have c2: "get_github_api (constant_world (Response 404 None)) ''issues'' [] ''acme'' ''r''
     = ([(Stderr, 28)], Inr (False, JNull))"
    using get_github_api_results[where w = "constant_world (Response 404 None)"
        and endpoint = "''issues''" and headers = "[]" and org = "''acme''" and repo = "''r''"
        and body = None, THEN conjunct2, THEN conjunct1]
    by (simp add: constant_world_def)
  have c3: "get_github_api (constant_world (Response 500 None)) ''issues'' [] ''acme'' ''r''
     = ([(Stderr, 31)], Inr (False, JNull))"
    using get_github_api_results[where w = "constant_world (Response 500 None)"
        and endpoint = "''issues''" and headers = "[]" and org = "''acme''" and repo = "''r''"
        and body = None and status = 500, THEN conjunct2, THEN conjunct2, THEN conjunct1]
    by (simp add: constant_world_def)
  have c4: "get_github_api (constant_world (Response 200 None)) ''issues'' [] ''acme'' ''r''
     = ([(Stderr, 34)], Inr (False, JNull))"
    using get_github_api_results[where w = "constant_world (Response 200 None)"
        and endpoint = "''issues''" and headers = "[]" and org = "''acme''" and repo = "''r''",
        THEN conjunct2, THEN conjunct2, THEN conjunct2, THEN conjunct1]
    by (simp add: constant_world_def)
  have c5: "get_github_api (constant_world (Raises RequestException)) ''issues'' [] ''acme'' ''r''
     = ([(Stderr, 34)], Inr (False, JNull))"
    using get_github_api_results[where w = "constant_world (Raises RequestException)"
        and endpoint = "''issues''" and headers = "[]" and org = "''acme''" and repo = "''r''"
        and e = RequestException,
        THEN conjunct2, THEN conjunct2, THEN conjunct2, THEN conjunct2, THEN conjunct1]
    by (simp add: constant_world_def)
  have k: "snd (get_github_api (constant_world (Raises KeyboardInterrupt)) ''issues'' [] ''acme'' ''r'')
     = Inl KeyboardInterrupt"
    by (simp add: get_github_api_def constant_world_def io_lift_def)
  have c6: "\<not> is_Exception KeyboardInterrupt"
    using get_github_api_results[where w = "constant_world (Raises KeyboardInterrupt)"
        and endpoint = "''issues''" and headers = "[]" and org = "''acme''" and repo = "''r''",
        THEN conjunct2, THEN conjunct2, THEN conjunct2, THEN conjunct2, THEN conjunct2] k
    by blast
  show ?thesis using c1 c2 c3 c4 c5 k c6 by blast
qed

lemma scan_issues_find:
  "\<forall>i \<in> set items. item_title i \<noteq> None \<Longrightarrow>
   scan_issues kws items =
     Inr (List.find (\<lambda>i. \<not> has_pull_request i \<and> title_matches kws i) items)"
proof (induction items)
  case Nil
  show ?case by simp
next
  case (Cons i items)
  then obtain kvs where i: "i = JObj kvs" by (cases i) auto
  from Cons.prems i have t: "map_of kvs ''title'' = None \<or> (\<exists>t. map_of kvs ''title'' = Some (JStr t))"
    by (auto split: option.splits json.splits)
  from Cons have IH: "scan_issues kws items =
     Inr (List.find (\<lambda>i. \<not> has_pull_request i \<and> title_matches kws i) items)" by simp
  from t have step: "scan_issues kws (i # items) =
      (if \<not> has_pull_request i \<and> title_matches kws i then Inr (Some i)
       else scan_issues kws items)"
    by (auto simp: i title_matches_def all_keywords_in_def)
  then show ?case by (simp add: IH)
qed

lemma scan_prs_find:
  "\<forall>i \<in> set items. item_title i \<noteq> None \<Longrightarrow>
   scan_prs kws items = Inr (List.find (title_matches kws) items)"
proof (induction items)
  case Nil
  show ?case by simp
next
  case (Cons i items)
  then obtain kvs where i: "i = JObj kvs" by (cases i) auto
  from Cons.prems i have t: "map_of kvs ''title'' = None \<or> (\<exists>t. map_of kvs ''title'' = Some (JStr t))"
    by (auto split: option.splits json.splits)
  from Cons have IH: "scan_prs kws items = Inr (List.find (title_matches kws) items)" by simp
  from t have step: "scan_prs kws (i # items) =
      (if title_matches kws i then Inr (Some i) else scan_prs kws items)"
    by (auto simp: i title_matches_def all_keywords_in_def)
  then show ?case by (simp add: IH)
qed

lemma find_append_option:
  "List.find P (xs @ ys) = (case List.find P xs of None \<Rightarrow> List.find P ys | Some x \<Rightarrow> Some x)"
  by (induction xs) auto

lemma find_issue_in_states_step:
  assumes a: "get_github_api w (''issues?state='' @ state @ ''&per_page=30'') headers org repo
      = ([], Inr (True, JArr items))"
    and s: "scan_issues kws items = Inr r"
  shows "find_issue_in_states w kws headers org repo (state # states) =
     (case r of Some i \<Rightarrow> ([], Inr i)
      | None \<Rightarrow> find_issue_in_states w kws headers org repo states)"
proof (cases "items = []")
  case True
  then have "r = None" using s by simp
  then show ?thesis using True a by (simp add: Let_def)
next
  case False
  then have "py_truthy (JArr items)" by simp
  then show ?thesis using a s
    by (cases "find_issue_in_states w kws headers org repo states")
       (simp add: Let_def io_lift_def io_return_def split: option.splits)
qed

lemma find_issue_listings:
  assumes o: "requests_get w (''https://api.github.com/repos/'' @ org @ ''/'' @ repo @ ''/''
                @ ''issues?state=open&per_page=30'') headers = Response 200 (Some (JArr open_items))"
    and c: "requests_get w (''https://api.github.com/repos/'' @ org @ ''/'' @ repo @ ''/''
                @ ''issues?state=closed&per_page=30'') headers = Response 200 (Some (JArr closed_items))"
    and wf: "\<forall>i \<in> set (open_items @ closed_items). item_title i \<noteq> None"
  shows "find_issue_by_keywords w kws headers org repo =
     ([], Inr (or_null (first_match (\<lambda>i. \<not> has_pull_request i \<and> title_matches kws i)
                          open_items closed_items)))"
proof -
  have so: "scan_issues kws open_items =
     Inr (List.find (\<lambda>i. \<not> has_pull_request i \<and> title_matches kws i) open_items)"
    using wf by (intro scan_issues_find) simp
  have sc: "scan_issues kws closed_items =
     Inr (List.find (\<lambda>i. \<not> has_pull_request i \<and> title_matches kws i) closed_items)"
    using wf by (intro scan_issues_find) simp
  have ao: "get_github_api w (''issues?state='' @ ''open'' @ ''&per_page=30'') headers org repo
      = ([], Inr (True, JArr open_items))"
    using o by (intro get_github_api_ok) simp
  have ac: "get_github_api w (''issues?state='' @ ''closed'' @ ''&per_page=30'') headers org repo
      = ([], Inr (True, JArr closed_items))"
    using c by (intro get_github_api_ok) simp
  show ?thesis
    unfolding find_issue_by_keywords_def first_match_def find_append_option
      find_issue_in_states_step[OF ao so] find_issue_in_states_step[OF ac sc]
    by (simp add: io_return_def or_null_def split: option.splits)
qed

lemma find_pr_in_states_step:
  assumes a: "get_github_api w (''pulls?state='' @ state @ ''&per_page=30'') headers org repo
      = ([], Inr (True, JArr items))"
    and s: "scan_prs kws items = Inr r"
  shows "find_pr_in_states w kws headers org repo (state # states) =
     (case r of Some i \<Rightarrow> ([], Inr i)
      | None \<Rightarrow> find_pr_in_states w kws headers org repo states)"
proof (cases "items = []")
  case True
  then have "r = None" using s by simp
  then show ?thesis using True a by (simp add: Let_def)
next
  case False
  then have "py_truthy (JArr items)" by simp
  then show ?thesis using a s
    by (cases "find_pr_in_states w kws headers org repo states")
       (simp add: Let_def io_lift_def io_return_def split: option.splits)
qed

lemma find_pr_listings:
  assumes o: "requests_get w (''https://api.github.com/repos/'' @ org @ ''/'' @ repo @ ''/''
                @ ''pulls?state=open&per_page=30'') headers = Response 200 (Some (JArr open_items))"
    and c: "requests_get w (''https://api.github.com/repos/'' @ org @ ''/'' @ repo @ ''/''
                @ ''pulls?state=closed&per_page=30'') headers = Response 200 (Some (JArr closed_items))"
    and wf: "\<forall>i \<in> set (open_items @ closed_items). item_title i \<noteq> None"
  shows "find_pr_by_keywords w kws headers org repo =
     ([], Inr (or_null (first_match (title_matches kws) open_items closed_items)))"
proof -
  have so: "scan_prs kws open_items = Inr (List.find (title_matches kws) open_items)"
    using wf by (intro scan_prs_find) simp
  have sc: "scan_prs kws closed_items = Inr (List.find (title_matches kws) closed_items)"
    using wf by (intro scan_prs_find) simp
  have ao: "get_github_api w (''pulls?state='' @ ''open'' @ ''&per_page=30'') headers org repo
      = ([], Inr (True, JArr open_items))"
    using o by (intro get_github_api_ok) simp
  have ac: "get_github_api w (''pulls?state='' @ ''closed'' @ ''&per_page=30'') headers org repo
      = ([], Inr (True, JArr closed_items))"
    using c by (intro get_github_api_ok) simp
  show ?thesis
    unfolding find_pr_by_keywords_def first_match_def find_append_option
      find_pr_in_states_step[OF ao so] find_pr_in_states_step[OF ac sc]
    by (simp add: io_return_def or_null_def split: option.splits)
qed

text \<open>
  Claim C4. For every keyword list and every pair of listings of items (objects whose
  title, if any, is a string) that the API returns with status 200 for the open and
  the closed state, \<^verbatim>\<open>_find_issue_by_keywords\<close> returns the first item, in listing order
  with the open listing before the closed one, that has no \<^verbatim>\<open>pull_request\<close> field and
  whose title contains every keyword, both in lower case; \<^verbatim>\<open>_find_pr_by_keywords\<close>
  returns the first item whose title does. When no item matches, the result is
  \<^verbatim>\<open>None\<close>. Neither prints anything.
\<close>

theorem finders_return_first_match:
  "(requests_get w (''https://api.github.com/repos/'' @ org @ ''/'' @ repo
        @ ''/issues?state=open&per_page=30'') headers = Response 200 (Some (JArr open_issues))
    \<and> requests_get w (''https://api.github.com/repos/'' @ org @ ''/'' @ repo
        @ ''/issues?state=closed&per_page=30'') headers = Response 200 (Some (JArr closed_issues))
    \<and> (\<forall>i \<in> set (open_issues @ closed_issues). item_title i \<noteq> None)
    \<longrightarrow> find_issue_by_keywords w wanted headers org repo =
          ([], Inr (or_null (first_match (\<lambda>i. \<not> has_pull_request i \<and> title_matches wanted i)
                               open_issues closed_issues))))
   \<and> (requests_get w (''https://api.github.com/repos/'' @ org @ ''/'' @ repo
        @ ''/pulls?state=open&per_page=30'') headers = Response 200 (Some (JArr open_prs))
    \<and> requests_get w (''https://api.github.com/repos/'' @ org @ ''/'' @ repo
        @ ''/pulls?state=closed&per_page=30'') headers = Response 200 (Some (JArr closed_prs))
    \<and> (\<forall>i \<in> set (open_prs @ closed_prs). item_title i \<noteq> None)
    \<longrightarrow> find_pr_by_keywords w wanted headers org repo =
          ([], Inr (or_null (first_match (title_matches wanted) open_prs closed_prs))))"
proof (intro conjI impI)
  assume "requests_get w (''https://api.github.com/repos/'' @ org @ ''/'' @ repo
        @ ''/issues?state=open&per_page=30'') headers = Response 200 (Some (JArr open_issues))
    \<and> requests_get w (''https://api.github.com/repos/'' @ org @ ''/'' @ repo
        @ ''/issues?state=closed&per_page=30'') headers = Response 200 (Some (JArr closed_issues))
    \<and> (\<forall>i \<in> set (open_issues @ closed_issues). item_title i \<noteq> None)"
  then show "find_issue_by_keywords w wanted headers org repo =
          ([], Inr (or_null (first_match (\<lambda>i. \<not> has_pull_request i \<and> title_matches wanted i)
                               open_issues closed_issues)))"
    by (intro find_issue_listings) simp_all
next
  assume "requests_get w (''https://api.github.com/repos/'' @ org @ ''/'' @ repo
        @ ''/pulls?state=open&per_page=30'') headers = Response 200 (Some (JArr open_prs))
    \<and> requests_get w (''https://api.github.com/repos/'' @ org @ ''/'' @ repo
        @ ''/pulls?state=closed&per_page=30'') headers = Response 200 (Some (JArr closed_prs))
    \<and> (\<forall>i \<in> set (open_prs @ closed_prs). item_title i \<noteq> None)"
  then show "find_pr_by_keywords w wanted headers org repo =
          ([], Inr (or_null (first_match (title_matches wanted) open_prs closed_prs)))"
    by (intro find_pr_listings) simp_all
qed

text \<open>Claim C4 at two listings: the open one holds a pull request with a matching
  title and an issue that does not match, so the issue finder returns the first closed
  issue; the pull request finder returns the open pull request.\<close>

theorem finders_return_first_match_witness:
  "find_issue_by_keywords listing_world issue_title_keywords [] ''acme'' ''r''
     = ([], Inr (JObj [(''number'', JNum 1), (''title'', JStr ''Standard label documentation'')]))
   \<and> find_pr_by_keywords listing_world pr_title_keywords [] ''acme'' ''r''
     = ([], Inr (JObj [(''number'', JNum 3), (''title'', JStr ''LABEL Standard Documentation'')]))"
proof -
  have h1: "requests_get listing_world (''https://api.github.com/repos/'' @ ''acme'' @ ''/'' @ ''r''
        @ ''/issues?state=open&per_page=30'') [] = Response 200 (Some (JArr
              [JObj [(''number'', JNum 3), (''title'', JStr ''LABEL Standard Documentation''),
                     (''pull_request'', JObj [])],
               JObj [(''number'', JNum 4), (''title'', JStr ''Label colours'')]]))
    \<and> requests_get listing_world (''https://api.github.com/repos/'' @ ''acme'' @ ''/'' @ ''r''
        @ ''/issues?state=closed&per_page=30'') [] = Response 200 (Some (JArr
              [JObj [(''number'', JNum 1), (''title'', JStr ''Standard label documentation'')],
               JObj [(''number'', JNum 2), (''title'', JStr ''label standard documentation'')]]))
    \<and> (\<forall>i \<in> set ([JObj [(''number'', JNum 3), (''title'', JStr ''LABEL Standard Documentation''),
                     (''pull_request'', JObj [])],
               JObj [(''number'', JNum 4), (''title'', JStr ''Label colours'')]]
             @ [JObj [(''number'', JNum 1), (''title'', JStr ''Standard label documentation'')],
               JObj [(''number'', JNum 2), (''title'', JStr ''label standard documentation'')]]).
          item_title i \<noteq> None)"
    by (simp add: listing_world_def listing_api_def)
  have h2: "requests_get listing_world (''https://api.github.com/repos/'' @ ''acme'' @ ''/'' @ ''r''
        @ ''/pulls?state=open&per_page=30'') [] = Response 200 (Some (JArr
              [JObj [(''number'', JNum 3), (''title'', JStr ''LABEL Standard Documentation'')]]))
    \<and> requests_get listing_world (''https://api.github.com/repos/'' @ ''acme'' @ ''/'' @ ''r''
        @ ''/pulls?state=closed&per_page=30'') [] = Response 200 (Some (JArr []))
    \<and> (\<forall>i \<in> set ([JObj [(''number'', JNum 3), (''title'', JStr ''LABEL Standard Documentation'')]]
             @ []). item_title i \<noteq> None)"
    by (simp add: listing_world_def listing_api_def)
  note t = finders_return_first_match[where w = listing_world and org = "''acme''" and repo = "''r''"
      and headers = "[]" and wanted = issue_title_keywords
      and open_issues = "[JObj [(''number'', JNum 3), (''title'', JStr ''LABEL Standard Documentation''),
                     (''pull_request'', JObj [])],
               JObj [(''number'', JNum 4), (''title'', JStr ''Label colours'')]]"
      and closed_issues = "[JObj [(''number'', JNum 1), (''title'', JStr ''Standard label documentation'')],
               JObj [(''number'', JNum 2), (''title'', JStr ''label standard documentation'')]]"
      and open_prs = "[JObj [(''number'', JNum 3), (''title'', JStr ''LABEL Standard Documentation'')]]"
      and closed_prs = "[]"]
  have c1: "find_issue_by_keywords listing_world issue_title_keywords [] ''acme'' ''r'' =
          ([], Inr (or_null (first_match (\<lambda>i. \<not> has_pull_request i \<and> title_matches issue_title_keywords i)
             [JObj [(''number'', JNum 3), (''title'', JStr ''LABEL Standard Documentation''),
                     (''pull_request'', JObj [])],
               JObj [(''number'', JNum 4), (''title'', JStr ''Label colours'')]]
             [JObj [(''number'', JNum 1), (''title'', JStr ''Standard label documentation'')],
               JObj [(''number'', JNum 2), (''title'', JStr ''label standard documentation'')]])))"
    using t[THEN conjunct1] h1 by (rule mp)
  have c2: "find_pr_by_keywords listing_world issue_title_keywords [] ''acme'' ''r'' =
          ([], Inr (or_null (first_match (title_matches issue_title_keywords)
             [JObj [(''number'', JNum 3), (''title'', JStr ''LABEL Standard Documentation'')]] [])))"
    using t[THEN conjunct2] h2 by (rule mp)
  have e1: "or_null (first_match (\<lambda>i. \<not> has_pull_request i \<and> title_matches issue_title_keywords i)
             [JObj [(''number'', JNum 3), (''title'', JStr ''LABEL Standard Documentation''),
                     (''pull_request'', JObj [])],
               JObj [(''number'', JNum 4), (''title'', JStr ''Label colours'')]]
             [JObj [(''number'', JNum 1), (''title'', JStr ''Standard label documentation'')],
               JObj [(''number'', JNum 2), (''title'', JStr ''label standard documentation'')]])
        = JObj [(''number'', JNum 1), (''title'', JStr ''Standard label documentation'')]"
    by code_simp
  have e2: "or_null (first_match (title_matches issue_title_keywords)
             [JObj [(''number'', JNum 3), (''title'', JStr ''LABEL Standard Documentation'')]] [])
        = JObj [(''number'', JNum 3), (''title'', JStr ''LABEL Standard Documentation'')]"
    by code_simp
  have k: "pr_title_keywords = issue_title_keywords"
    by (simp add: pr_title_keywords_def issue_title_keywords_def)
  show ?thesis using c1 c2 unfolding e1 e2 k by (rule conjI)
qed

section \<open>Properties of the comment scanner and of the core labels\<close>

lemma pr_reference_value: "pr_reference pr_number = ''PR #'' @ py_str pr_number"
  by (simp add: pr_reference_def comment_pr_reference_flag_def py_replace.simps py_startswith_def)

lemma scan_comments_step:
  assumes "comment_body_lower c \<noteq> None"
  shows "scan_comments n (c # cs) = (if compliant n c then Inr True else scan_comments n cs)"
proof -
  obtain kvs where c: "c = JObj kvs" using assms by (cases c) auto
  from assms c have t: "map_of kvs ''body'' = None \<or> (\<exists>b. map_of kvs ''body'' = Some (JStr b))"
    by (auto split: option.splits json.splits)
  then show ?thesis
    by (auto simp: c compliant_def has_pr_reference_def has_required_keywords_def
        has_content_flags_def pr_reference_def all_keywords_in_def Let_def py_lower_def)
qed

lemma scan_comments_all:
  "\<forall>c \<in> set cs. comment_body_lower c \<noteq> None \<Longrightarrow>
   scan_comments n cs = Inr (list_ex (compliant n) cs)"
proof (induction cs)
  case Nil
  show ?case by simp
next
  case (Cons c cs)
  have "comment_body_lower c \<noteq> None" using Cons.prems by simp
  then have "scan_comments n (c # cs) = (if compliant n c then Inr True else scan_comments n cs)"
    by (rule scan_comments_step)
  moreover have "scan_comments n cs = Inr (list_ex (compliant n) cs)"
    using Cons by simp
  ultimately show ?case by simp
qed

lemma scan_comments_first:
  "\<forall>c \<in> set earlier. comment_body_lower c \<noteq> None \<and> \<not> compliant n c \<Longrightarrow> compliant n c \<Longrightarrow>
   scan_comments n (earlier @ c # later) = Inr True"
proof (induction earlier)
  case Nil
  then have "comment_body_lower c \<noteq> None" by (auto simp: compliant_def split: option.splits)
  then have "scan_comments n (c # later) = (if compliant n c then Inr True else scan_comments n later)"
    by (rule scan_comments_step)
  then show ?case using Nil by simp
next
  case (Cons a earlier)
  have "comment_body_lower a \<noteq> None" "\<not> compliant n a" using Cons.prems by simp_all
  then have "scan_comments n (a # (earlier @ c # later)) = scan_comments n (earlier @ c # later)"
    using scan_comments_step[of a n "earlier @ c # later"] by simp
  then show ?case using Cons by simp
qed

text \<open>
  Claim C5. For every sequence of comments (objects whose body, if any, is a string)
  the result of the scan is true exactly when some comment is compliant: its
  lower-cased body contains the reference \<^verbatim>\<open>PR #\<close> followed by the number of the pull
  request, every required keyword and every required content flag, all in lower case.
  The first compliant comment ends the scan with true, whatever comes after it. A
  comment that misses one of the three groups is passed over, even when it has the
  other two. When no comment is compliant the result is false.
\<close>

theorem comment_scanner_rule:
  "((\<forall>c \<in> set comments. comment_body_lower c \<noteq> None)
      \<longrightarrow> scan_comments pr_number comments = Inr (list_ex (compliant pr_number) comments))
   \<and> ((\<forall>c \<in> set earlier. comment_body_lower c \<noteq> None \<and> \<not> compliant pr_number c)
        \<and> compliant pr_number comment
      \<longrightarrow> scan_comments pr_number (earlier @ comment # later) = Inr True)
   \<and> (comment_body_lower comment \<noteq> None
        \<and> \<not> (has_pr_reference pr_number (the (comment_body_lower comment))
              \<and> has_required_keywords (the (comment_body_lower comment))
              \<and> has_content_flags (the (comment_body_lower comment)))
      \<longrightarrow> scan_comments pr_number (comment # later) = scan_comments pr_number later)
   \<and> pr_reference pr_number = ''PR #'' @ py_str pr_number"
proof (intro conjI impI)
  assume "\<forall>c \<in> set comments. comment_body_lower c \<noteq> None"
  then show "scan_comments pr_number comments = Inr (list_ex (compliant pr_number) comments)"
    by (rule scan_comments_all)
next
  assume "(\<forall>c \<in> set earlier. comment_body_lower c \<noteq> None \<and> \<not> compliant pr_number c)
        \<and> compliant pr_number comment"
  then show "scan_comments pr_number (earlier @ comment # later) = Inr True"
    by (intro scan_comments_first) simp_all
next
  assume a: "comment_body_lower comment \<noteq> None
        \<and> \<not> (has_pr_reference pr_number (the (comment_body_lower comment))
              \<and> has_required_keywords (the (comment_body_lower comment))
              \<and> has_content_flags (the (comment_body_lower comment)))"
  then have "\<not> compliant pr_number comment"
    by (auto simp: compliant_def)
  moreover have "comment_body_lower comment \<noteq> None" using a by simp
  ultimately show "scan_comments pr_number (comment # later) = scan_comments pr_number later"
    using scan_comments_step[of comment pr_number later] by simp
next
  show "pr_reference pr_number = ''PR #'' @ py_str pr_number"
    by (rule pr_reference_value)
qed

text \<open>Claim C5 at a comment without the reference, a comment without the flags and
  a compliant comment, followed by a value that is not a comment.\<close>

theorem comment_scanner_rule_witness:
  "scan_comments (JNum 8)
     ([JObj [(''body'', JStr ''Label documentation completed, labels verified and applied'')],
       JObj [(''body'', JStr ''See PR #8: label documentation completed'')]]
      @ JObj [(''body'', JStr ''PR #8: Label documentation completed; labels verified and applied'')]
      # [JNull]) = Inr True
   \<and> scan_comments (JNum 8)
     [JObj [(''body'', JStr ''Label documentation completed, labels verified and applied'')],
      JObj [(''body'', JStr ''See PR #8: label documentation completed'')]] = Inr False
   \<and> scan_comments (JNum 8)
     (JObj [(''body'', JStr ''See PR #8: label documentation completed'')] # [JNull])
     = scan_comments (JNum 8) [JNull]"
proof -
  note t = comment_scanner_rule[where pr_number = "JNum 8"
      and comments = "[JObj [(''body'', JStr ''Label documentation completed, labels verified and applied'')],
      JObj [(''body'', JStr ''See PR #8: label documentation completed'')]]"]
  have h1: "\<forall>c \<in> set [JObj [(''body'', JStr ''Label documentation completed, labels verified and applied'')],
      JObj [(''body'', JStr ''See PR #8: label documentation completed'')]]. comment_body_lower c \<noteq> None"
    by simp
  have v1: "list_ex (compliant (JNum 8))
      [JObj [(''body'', JStr ''Label documentation completed, labels verified and applied'')],
       JObj [(''body'', JStr ''See PR #8: label documentation completed'')]] = False"
    by code_simp
  have c1: "scan_comments (JNum 8)
     [JObj [(''body'', JStr ''Label documentation completed, labels verified and applied'')],
      JObj [(''body'', JStr ''See PR #8: label documentation completed'')]] = Inr False"
    using t[THEN conjunct1, THEN mp, OF h1] unfolding v1 .
  have n1: "\<not> compliant (JNum 8)
      (JObj [(''body'', JStr ''Label documentation completed, labels verified and applied'')])"
    by code_simp
  have n2: "\<not> compliant (JNum 8) (JObj [(''body'', JStr ''See PR #8: label documentation completed'')])"
    by code_simp
  have g: "compliant (JNum 8)
      (JObj [(''body'', JStr ''PR #8: Label documentation completed; labels verified and applied'')])"
    by code_simp
  have h2: "(\<forall>c \<in> set [JObj [(''body'', JStr ''Label documentation completed, labels verified and applied'')],
      JObj [(''body'', JStr ''See PR #8: label documentation completed'')]].
        comment_body_lower c \<noteq> None \<and> \<not> compliant (JNum 8) c)
     \<and> compliant (JNum 8)
      (JObj [(''body'', JStr ''PR #8: Label documentation completed; labels verified and applied'')])"
    using n1 n2 g by simp
  have c2: "scan_comments (JNum 8)
     ([JObj [(''body'', JStr ''Label documentation completed, labels verified and applied'')],
       JObj [(''body'', JStr ''See PR #8: label documentation completed'')]]
      @ JObj [(''body'', JStr ''PR #8: Label documentation completed; labels verified and applied'')]
      # [JNull]) = Inr True"
    using comment_scanner_rule[where pr_number = "JNum 8"
      and earlier = "[JObj [(''body'', JStr ''Label documentation completed, labels verified and applied'')],
        JObj [(''body'', JStr ''See PR #8: label documentation completed'')]]"
      and comment = "JObj [(''body'', JStr ''PR #8: Label documentation completed; labels verified and applied'')]"
      and later = "[JNull]", THEN conjunct2, THEN conjunct1, THEN mp, OF h2] .
  have f: "\<not> has_content_flags (the (comment_body_lower
      (JObj [(''body'', JStr ''See PR #8: label documentation completed'')])))"
    by code_simp
  have h3: "comment_body_lower (JObj [(''body'', JStr ''See PR #8: label documentation completed'')]) \<noteq> None
     \<and> \<not> (has_pr_reference (JNum 8) (the (comment_body_lower
              (JObj [(''body'', JStr ''See PR #8: label documentation completed'')])))
          \<and> has_required_keywords (the (comment_body_lower
              (JObj [(''body'', JStr ''See PR #8: label documentation completed'')])))
          \<and> has_content_flags (the (comment_body_lower
              (JObj [(''body'', JStr ''See PR #8: label documentation completed'')]))))"
    using f by simp
  have c3: "scan_comments (JNum 8)
     (JObj [(''body'', JStr ''See PR #8: label documentation completed'')] # [JNull])
     = scan_comments (JNum 8) [JNull]"
    using comment_scanner_rule[where pr_number = "JNum 8"
      and comment = "JObj [(''body'', JStr ''See PR #8: label documentation completed'')]"
      and later = "[JNull]", THEN conjunct2, THEN conjunct2, THEN conjunct1, THEN mp, OF h3] .
  show ?thesis using c2 c1 c3 by blast
qed

lemma core_expected_labels_value:
  "core_expected_labels = [''bug'', ''enhancement'', ''documentation'', ''feature'',
     ''bug-critical'', ''bug-major'', ''bug-minor'', ''task'', ''question'', ''help-wanted'']"
  by (simp add: core_expected_labels_def expected_labels_def)

lemma core_split:
  "length (filter (\<lambda>l. JStr l \<in> set names) core_expected_labels)
     + length (missing_pr_core_labels names) = 10"
proof -
  have "length (filter (\<lambda>l. JStr l \<in> set names) core_expected_labels)
     + length (filter (\<lambda>l. \<not> JStr l \<in> set names) core_expected_labels)
     = length core_expected_labels"
    by (rule sum_length_filter_compl)
  then show ?thesis
    by (simp add: missing_pr_core_labels_def missing_labels_def core_expected_labels_value)
qed

text \<open>
  Claim C7. The core labels are the first 10 expected labels, all different. Step 9
  fails if and only if more than 5 of them are missing from the label names of the
  pull request, that is, if and only if at most 4 of them are among the names; with 5
  or more of them the step passes.
\<close>

theorem pr_core_labels_threshold:
  "length core_expected_labels = 10 \<and> distinct core_expected_labels
   \<and> too_many_core_labels_missing names = (5 < length (missing_pr_core_labels names))
   \<and> too_many_core_labels_missing names
       = (length (filter (\<lambda>l. JStr l \<in> set names) core_expected_labels) \<le> 4)
   \<and> (label_names pr_labels = Inr names \<longrightarrow>
        check_pr_labels pr_labels =
          (if 5 \<le> length (filter (\<lambda>l. JStr l \<in> set names) core_expected_labels)
           then ([(Stdout, 437), (Stdout, 450)], Inr (Some ()))
           else ([(Stdout, 437), (Stderr, 447)], Inr None)))"
proof -
  have len: "length core_expected_labels = 10"
    by (simp add: core_expected_labels_value)
  have dist: "distinct core_expected_labels"
    by (simp add: core_expected_labels_value)
  have a: "too_many_core_labels_missing names = (5 < length (missing_pr_core_labels names))"
    by (simp add: too_many_core_labels_missing_def len)
  have b: "too_many_core_labels_missing names
       = (length (filter (\<lambda>l. JStr l \<in> set names) core_expected_labels) \<le> 4)"
    using core_split[of names] a by arith
  have c: "check_pr_labels pr_labels =
          (if 5 \<le> length (filter (\<lambda>l. JStr l \<in> set names) core_expected_labels)
           then ([(Stdout, 437), (Stdout, 450)], Inr (Some ()))
           else ([(Stdout, 437), (Stderr, 447)], Inr None))"
    if "label_names pr_labels = Inr names"
    using that b by (auto simp: check_pr_labels_def io_lift_def io_return_def)
  show ?thesis using len dist a b c by blast
qed

text \<open>Claim C7 at a pull request with five core labels (and one label that is not
  core) and at one with four.\<close>

theorem pr_core_labels_threshold_witness:
  "check_pr_labels (JArr (map (\<lambda>name. JObj [(''name'', JStr name)])
       [''bug'', ''task'', ''feature'', ''question'', ''wontfix'', ''enhancement'']))
     = ([(Stdout, 437), (Stdout, 450)], Inr (Some ()))
   \<and> check_pr_labels (JArr (map (\<lambda>name. JObj [(''name'', JStr name)])
       [''bug'', ''task'', ''feature'', ''question'', ''wontfix'']))
     = ([(Stdout, 437), (Stderr, 447)], Inr None)"
proof -
  have n1: "label_names (JArr (map (\<lambda>name. JObj [(''name'', JStr name)])
       [''bug'', ''task'', ''feature'', ''question'', ''wontfix'', ''enhancement'']))
     = Inr (map JStr [''bug'', ''task'', ''feature'', ''question'', ''wontfix'', ''enhancement''])"
    by (simp add: label_names_def)
  have n2: "label_names (JArr (map (\<lambda>name. JObj [(''name'', JStr name)])
       [''bug'', ''task'', ''feature'', ''question'', ''wontfix'']))
     = Inr (map JStr [''bug'', ''task'', ''feature'', ''question'', ''wontfix''])"
    by (simp add: label_names_def)
  have k1: "length (filter (\<lambda>l. JStr l \<in> set (map JStr
       [''bug'', ''task'', ''feature'', ''question'', ''wontfix'', ''enhancement'']))
       core_expected_labels) = 5"
    by (simp add: core_expected_labels_value)
  have k2: "length (filter (\<lambda>l. JStr l \<in> set (map JStr
       [''bug'', ''task'', ''feature'', ''question'', ''wontfix'']))
       core_expected_labels) = 4"
    by (simp add: core_expected_labels_value)
  have c1: "check_pr_labels (JArr (map (\<lambda>name. JObj [(''name'', JStr name)])
       [''bug'', ''task'', ''feature'', ''question'', ''wontfix'', ''enhancement'']))
     = ([(Stdout, 437), (Stdout, 450)], Inr (Some ()))"
    using pr_core_labels_threshold[where names = "map JStr
         [''bug'', ''task'', ''feature'', ''question'', ''wontfix'', ''enhancement'']"
        and pr_labels = "JArr (map (\<lambda>name. JObj [(''name'', JStr name)])
         [''bug'', ''task'', ''feature'', ''question'', ''wontfix'', ''enhancement''])",
        THEN conjunct2, THEN conjunct2, THEN conjunct2, THEN conjunct2, THEN mp, OF n1]
    by (simp only: k1) simp
  have c2: "check_pr_labels (JArr (map (\<lambda>name. JObj [(''name'', JStr name)])
       [''bug'', ''task'', ''feature'', ''question'', ''wontfix'']))
     = ([(Stdout, 437), (Stderr, 447)], Inr None)"
    using pr_core_labels_threshold[where names = "map JStr
         [''bug'', ''task'', ''feature'', ''question'', ''wontfix'']"
        and pr_labels = "JArr (map (\<lambda>name. JObj [(''name'', JStr name)])
         [''bug'', ''task'', ''feature'', ''question'', ''wontfix''])",
        THEN conjunct2, THEN conjunct2, THEN conjunct2, THEN conjunct2, THEN mp, OF n2]
    by (simp only: k2) simp
  show ?thesis using c1 c2 by (rule conjI)
qed

section \<open>Properties of the pipeline\<close>

lemma emits_return: "emits (io_return x)"
  by (simp add: emits_def io_return_def)

lemma emits_lift: "emits (io_lift r)"
  by (simp add: emits_def io_lift_def)

lemma emits_say: "routine (s, n) \<Longrightarrow> emits m \<Longrightarrow> emits (say s n m)"
  by (cases m) (simp add: emits_def)

lemma emits_bind: "emits m \<Longrightarrow> (\<And>x. emits (f x)) \<Longrightarrow> emits (io_bind m f)"
proof -
  assume m: "emits m" and f: "\<And>x. emits (f x)"
  obtain out r where mr: "m = (out, r)" by (cases m)
  show ?thesis
  proof (cases r)
    case (Inl e)
    then show ?thesis using m mr by (simp add: emits_def)
  next
    case (Inr x)
    obtain out' r' where fx: "f x = (out', r')" by (cases "f x")
    then show ?thesis using m mr Inr f[of x] by (auto simp: emits_def)
  qed
qed

lemma emits_get_github_api: "emits (get_github_api w endpoint headers org repo)"
  by (auto simp: get_github_api_def Let_def routine_def
      intro!: emits_return emits_lift emits_say split: http_result.splits option.splits)

lemma emits_check_branch_exists: "emits (check_branch_exists w b headers org repo)"
  unfolding check_branch_exists_def
  by (intro emits_bind emits_get_github_api) (auto intro: emits_return)

lemma emits_get_file_content: "emits (get_file_content w b f headers org repo)"
  unfolding get_file_content_def
  by (intro emits_bind emits_get_github_api)
     (auto simp: routine_def intro!: emits_return emits_lift emits_say emits_bind split: option.splits)

lemma emits_find_issue_in_states: "emits (find_issue_in_states w kws headers org repo states)"
proof (induction states)
  case Nil
  show ?case by (simp add: emits_return)
next
  case (Cons s states)
  show ?case
    by (auto simp: Let_def Cons.IH intro!: emits_bind emits_get_github_api emits_lift emits_return
        split: option.splits)
qed

lemma emits_find_pr_in_states: "emits (find_pr_in_states w kws headers org repo states)"
proof (induction states)
  case Nil
  show ?case by (simp add: emits_return)
next
  case (Cons s states)
  show ?case
    by (auto simp: Let_def Cons.IH intro!: emits_bind emits_get_github_api emits_lift emits_return
        split: option.splits)
qed

lemma emits_get_issue_comments: "emits (get_issue_comments w n headers org repo)"
  unfolding get_issue_comments_def
  by (intro emits_bind emits_get_github_api) (auto intro: emits_return)

lemma shape_done: "C = {} \<Longrightarrow> shape F C (io_return (Some x))"
  by (simp add: shape_def io_return_def emits_def)

lemma shape_fail: "n \<in> F \<Longrightarrow> shape F C (say Stderr n (io_return None))"
  by (simp add: shape_def io_return_def)

lemma shape_say: "routine (s, n) \<Longrightarrow> shape F (C - {(s, n)}) m \<Longrightarrow> shape F C (say s n m)"
proof -
  assume rt: "routine (s, n)" and sh: "shape F (C - {(s, n)}) m"
  obtain out r where mr: "m = (out, r)" by (cases m)
  show ?thesis
  proof (cases r)
    case (Inl e)
    then show ?thesis using rt sh mr by (simp add: shape_def emits_def)
  next
    case (Inr v)
    show ?thesis
    proof (cases v)
      case None
      then show ?thesis using rt sh mr Inr
        by (auto simp: shape_def emits_def butlast.simps)
    next
      case (Some x)
      then show ?thesis using rt sh mr Inr
        by (auto simp: shape_def emits_def)
    qed
  qed
qed

lemma shape_bind: "emits m \<Longrightarrow> (\<And>x. shape F C (f x)) \<Longrightarrow> shape F C (io_bind m f)"
proof -
  assume m: "emits m" and f: "\<And>x. shape F C (f x)"
  obtain out r where mr: "m = (out, r)" by (cases m)
  show ?thesis
  proof (cases r)
    case (Inl e)
    then show ?thesis using m mr by (simp add: shape_def emits_def)
  next
    case (Inr x)
    obtain out' r' where fx: "f x = (out', r')" by (cases "f x")
    have sh: "shape F C (out', r')" using f[of x] fx by simp
    have o: "\<forall>e \<in> set out. routine e" using m mr by (simp add: emits_def)
    show ?thesis
    proof (cases r')
      case (Inl e)
      then show ?thesis using sh o mr Inr fx by (auto simp: shape_def emits_def)
    next
      case r': (Inr v)
      show ?thesis
      proof (cases v)
        case None
        then have ne: "out' \<noteq> []" using sh r' by (simp add: shape_def)
        then show ?thesis using sh o mr Inr fx r' None
          by (auto simp: shape_def butlast_append)
      next
        case (Some y)
        then show ?thesis using sh o mr Inr fx r' by (auto simp: shape_def emits_def)
      qed
    qed
  qed
qed

lemma shape_bind_lift: "(\<And>x. shape F C (f x)) \<Longrightarrow> shape F C (io_bind (io_lift r) f)"
  by (rule shape_bind[OF emits_lift])

lemmas shape_intros = shape_bind_lift shape_say shape_fail shape_done

lemma shape_load_env: "shape {200, 203} {} (load_env w)"
  by (auto simp: load_env_def Let_def intro!: shape_intros)

lemma check_headers_value:
  "check_headers github_token =
     ([(Stdout, 212), (Stdout, 213), (Stdout, 214), (Stdout, 215), (Stdout, 220),
       (Stdout, 229), (Stdout, 230)],
      Inr (Some [(''Authorization'', ''token '' @ github_token),
                 (''Accept'', ''application/vnd.github.v3+json'')]))"
  by (simp add: check_headers_def io_return_def)

lemma shape_check_headers: "shape {} {(Stdout, 230)} (check_headers t)"
  by (simp add: check_headers_value shape_def emits_def routine_def)

lemma shape_check_branch: "shape {239} {(Stdout, 241)} (check_branch w headers org)"
  unfolding check_branch_def
  by (intro shape_say shape_bind emits_check_branch_exists)
     (auto simp: routine_def intro!: shape_intros)

lemma shape_check_doc: "shape {255, 264} {(Stdout, 266)} (check_doc w headers org)"
  unfolding check_doc_def
  by (intro shape_say shape_bind emits_get_file_content)
     (auto simp: routine_def Let_def intro!: shape_intros)

lemma emits_find_issue: "emits (find_issue_by_keywords w kws headers org repo)"
  unfolding find_issue_by_keywords_def by (rule emits_find_issue_in_states)

lemma emits_find_pr: "emits (find_pr_by_keywords w kws headers org repo)"
  unfolding find_pr_by_keywords_def by (rule emits_find_pr_in_states)

lemma shape_check_issue:
  "shape {279, 292, 301, 310} {(Stdout, 312)} (check_issue w headers org)"
  unfolding check_issue_def
  by (intro shape_say shape_bind emits_find_issue)
     (auto simp: routine_def Let_def intro!: shape_intros)

lemma shape_check_pr:
  "shape {325, 335, 344, 353, 358} {(Stdout, 360)} (check_pr w headers org issue_number)"
  unfolding check_pr_def
  by (intro shape_say shape_bind emits_find_pr)
     (auto simp: routine_def Let_def intro!: shape_intros)

lemma shape_check_issue_labels: "shape {371} {(Stdout, 373)} (check_issue_labels ls)"
  unfolding check_issue_labels_def
  by (auto simp: routine_def Let_def intro!: shape_intros)

lemma shape_check_comments:
  "shape {407} {(Stdout, 409)} (check_comments w headers org issue_number pr_number)"
  unfolding check_comments_def
  by (intro shape_say shape_bind emits_get_issue_comments emits_lift)
     (auto simp: routine_def Let_def intro!: shape_intros)

lemma shape_check_doc_consistency: "shape {421} {(Stdout, 432)} (check_doc_consistency ls)"
  unfolding check_doc_consistency_def
  by (auto simp: routine_def Let_def intro!: shape_intros)

lemma shape_check_pr_labels: "shape {447} {(Stdout, 450)} (check_pr_labels ls)"
  unfolding check_pr_labels_def
  by (auto simp: routine_def Let_def intro!: shape_intros)

lemma sorted_map_const: "sorted (map (\<lambda>x. (k::nat)) xs)"
  by (induction xs) auto

lemma pshape_and_then:
  assumes b: "shape F C0 b" and F: "F \<subseteq> reachable_failure_lines"
    and f: "\<And>x. pshape k' C' (f x)" and k: "k \<le> k'"
    and C: "C \<subseteq> (\<lambda>e. (k, e)) ` C0 \<union> C'"
  shows "pshape k C (and_then (in_step k b) f)"
proof -
  obtain out r where br: "b = (out, r)" by (cases b)
  show ?thesis
  proof (cases r)
    case (Inl e)
    then show ?thesis using b br
      by (auto simp: pshape_def shape_def emits_def in_step_def comp_def sorted_map_const)
  next
    case (Inr v)
    show ?thesis
    proof (cases v)
      case None
      then have "out \<noteq> []" "fst (last out) = Stderr" "snd (last out) \<in> F"
        "\<forall>e \<in> set (butlast out). routine e"
        using b br Inr by (simp_all add: shape_def)
      then show ?thesis using br Inr None F
        by (auto simp: pshape_def in_step_def comp_def last_map map_butlast[symmetric]
            sorted_map_const)
    next
      case (Some x)
      obtain out' r' where fx: "f x = (out', r')" by (cases "f x")
      have ps: "pshape k' C' (out', r')" using f[of x] fx by simp
      have o: "\<forall>e \<in> set out. routine e" "C0 \<subseteq> set out"
        using b br Inr Some by (simp_all add: shape_def emits_def)
      have srt: "sorted (map fst (map (\<lambda>e. (k, e)) out @ out'))"
        using ps k by (auto simp: pshape_def sorted_append comp_def sorted_map_const)
      have low: "\<forall>e \<in> set (map (\<lambda>e. (k, e)) out @ out'). k \<le> fst e"
        using ps k by (auto simp: pshape_def)
      show ?thesis
      proof (cases r')
        case (Inl e)
        then show ?thesis using srt low ps o br Inr Some fx
          by (auto simp: pshape_def in_step_def)
      next
        case r': (Inr t)
        show ?thesis
        proof (cases t)
          case True
          then have "C' \<subseteq> set out'" using ps r' by (simp add: pshape_def)
          moreover have "(\<lambda>e. (k, e)) ` C0 \<subseteq> (\<lambda>e. (k, e)) ` set out"
            using o(2) by (rule image_mono)
          ultimately have "C \<subseteq> (\<lambda>e. (k, e)) ` set out \<union> set out'"
            using C by blast
          then have "C \<subseteq> set (map (\<lambda>e. (k, e)) out @ out')"
            by simp
          moreover have "\<forall>e \<in> set (map (\<lambda>e. (k, e)) out @ out'). routine (snd e)"
            using True ps o(1) r' by (auto simp: pshape_def)
          ultimately show ?thesis using True srt low br Inr Some fx r'
            by (simp add: pshape_def in_step_def)
        next
          case False
          then have "out' \<noteq> []" using ps r' by (simp add: pshape_def)
          then show ?thesis using srt low ps o br Inr Some fx r' False
            by (auto simp: pshape_def in_step_def butlast_append)
        qed
      qed
    qed
  qed
qed

lemma pshape_finish: "pshape 10 {(10, Stdout, 462)} (in_step 10 finish)"
  by (simp add: pshape_def in_step_def finish_def io_return_def routine_def)

lemma pshape_verify: "pshape 1 (set completion_events) (verify_label_standardization w)"
  unfolding verify_label_standardization_def
  apply (rule pshape_and_then[OF shape_load_env, where k' = 1 and C' = "set completion_events"])
     apply (simp add: reachable_failure_lines_def failure_lines_def)
    apply (simp only: split_paired_all case_prod_conv)
    apply (rule pshape_and_then[OF shape_check_headers, where k' = 2 and C' = "set (drop 1 completion_events)"])
       apply simp
      apply (rule pshape_and_then[OF shape_check_branch, where k' = 3 and C' = "set (drop 2 completion_events)"])
         apply (simp add: reachable_failure_lines_def failure_lines_def)
        apply (rule pshape_and_then[OF shape_check_doc, where k' = 4 and C' = "set (drop 3 completion_events)"])
           apply (simp add: reachable_failure_lines_def failure_lines_def)
          apply (rule pshape_and_then[OF shape_check_issue, where k' = 5 and C' = "set (drop 4 completion_events)"])
             apply (simp add: reachable_failure_lines_def failure_lines_def)
            apply (simp only: split_paired_all case_prod_conv)
            apply (rule pshape_and_then[OF shape_check_pr, where k' = 6 and C' = "set (drop 5 completion_events)"])
               apply (simp add: reachable_failure_lines_def failure_lines_def)
              apply (simp only: split_paired_all case_prod_conv)
              apply (rule pshape_and_then[OF shape_check_issue_labels, where k' = 7 and C' = "set (drop 6 completion_events)"])
                 apply (simp add: reachable_failure_lines_def failure_lines_def)
                apply (rule pshape_and_then[OF shape_check_comments, where k' = 8 and C' = "set (drop 7 completion_events)"])
                   apply (simp add: reachable_failure_lines_def failure_lines_def)
                  apply (rule pshape_and_then[OF shape_check_doc_consistency, where k' = 9 and C' = "set (drop 8 completion_events)"])
                     apply (simp add: reachable_failure_lines_def failure_lines_def)
                    apply (rule pshape_and_then[OF shape_check_pr_labels, where k' = 10 and C' = "{(10, Stdout, 462)}"])
                       apply (simp add: reachable_failure_lines_def failure_lines_def)
                      apply (rule pshape_finish)
                     apply (simp_all add: completion_events_def)
  done






text \<open>
  Claim C8. For every token the header self-check passes and returns the headers
  built from the token, and the error message of line 227 is printed in no run.
\<close>

theorem header_self_check_never_fails:
  "snd (check_headers github_token)
     = Inr (Some [(''Authorization'', ''token '' @ github_token),
                  (''Accept'', ''application/vnd.github.v3+json'')])
   \<and> (Stderr, 227) \<notin> set (fst (check_headers github_token))
   \<and> (\<forall>k. (k, Stderr, 227) \<notin> set (fst (verify_label_standardization w)))"
proof -
  obtain out r where v: "verify_label_standardization w = (out, r)"
    by (cases "verify_label_standardization w")
  have ps: "pshape 1 (set completion_events) (out, r)"
    using pshape_verify[of w] v by simp
  have nr: "\<not> routine (Stderr, 227)" by (simp add: routine_def)
  have "(k, Stderr, 227) \<notin> set out" for k
  proof (cases "r = Inr False")
    case False
    then have "\<forall>e \<in> set out. routine (snd e)"
      using ps by (cases r) (auto simp: pshape_def split: bool.splits)
    then show ?thesis using nr by force
  next
    case True
    then have ne: "out \<noteq> []" and l: "snd (snd (last out)) \<in> reachable_failure_lines"
      and bl: "\<forall>e \<in> set (butlast out). routine (snd e)"
      using ps by (simp_all add: pshape_def)
    have "last out \<noteq> (k, Stderr, 227)"
      using l by (auto simp: reachable_failure_lines_def)
    moreover have "(k, Stderr, 227) \<notin> set (butlast out)" using bl nr by force
    moreover have "set out = set (butlast out) \<union> {last out}"
      using ne by (metis append_butlast_last_id list.simps(15) set_append empty_set Un_insert_right sup_bot.right_neutral)
    ultimately show ?thesis by auto
  qed
  then show ?thesis
    by (simp add: check_headers_value v)
qed


text \<open>Claim C8 at the token \<^verbatim>\<open>secret\<close>.\<close>

theorem header_self_check_never_fails_witness:
  "snd (check_headers ''secret'')
     = Inr (Some [(''Authorization'', ''token secret''),
                  (''Accept'', ''application/vnd.github.v3+json'')])
   \<and> (1, Stderr, 227) \<notin> set (fst (verify_label_standardization no_branch_world))"
  using header_self_check_never_fails[of "''secret''" no_branch_world] by simp

text \<open>
  Claim C9 fails on the code. Two runs that exit with status 1: the user interrupts
  the first request, and the API returns the issue with \<^verbatim>\<open>null\<close> as its body, on which
  line 289 raises a \<^verbatim>\<open>TypeError\<close>. In both the last line, the failure message of the
  handlers of lines 474 and 477, goes to standard output, and nothing at all is
  written to the error stream.
\<close>

theorem top_level_failure_on_stdout:
  "main interrupted_world =
     ([(Stdout, 212), (Stdout, 213), (Stdout, 214), (Stdout, 215), (Stdout, 220), (Stdout, 229),
       (Stdout, 230), (Stdout, 235), (Stdout, 474)], 1)
   \<and> main (example_world JNull) =
     ([(Stdout, 212), (Stdout, 213), (Stdout, 214), (Stdout, 215), (Stdout, 220), (Stdout, 229),
       (Stdout, 230), (Stdout, 235), (Stdout, 241), (Stdout, 246), (Stdout, 266), (Stdout, 271),
       (Stdout, 477)], 1)"
  by code_simp

end
